theory Spec2Isabelle
  imports Complex_Main "HOL-Library.Word"
begin

section \<open>Binary64 rounding\<close>

text \<open>
  The component computes with the JavaScript type \<^verbatim>\<open>number\<close>: IEEE 754 binary64. A
  finite number is kept as the real number it denotes, and every arithmetic result and
  every parsed literal is rounded to the nearest binary64 value, ties to even (\<open>rd\<close>).

  \<open>bit_length n\<close> is the number of binary digits of \<open>n\<close>, and \<open>exponent_of x\<close>, for
  \<open>0 < x\<close>, is the integer \<open>e\<close> with \<open>2 powi e \<le> x < 2 powi (e + 1)\<close>.
\<close>

fun bit_length :: "nat \<Rightarrow> nat" where
  "bit_length n = (if n = 0 then 0 else Suc (bit_length (n div 2)))"

declare bit_length.simps [simp del]

definition exponent_of :: "real \<Rightarrow> int" where
  "exponent_of x =
     (if 1 \<le> x then int (bit_length (nat \<lfloor>x\<rfloor>)) - 1
      else - int (bit_length (nat (\<lceil>1 / x\<rceil> - 1))))"

text \<open>The integer nearest to \<open>q\<close>; of two nearest ones, the even one.\<close>

definition round_half_even :: "real \<Rightarrow> int" where
  "round_half_even q =
     (let f = \<lfloor>q\<rfloor>; r = q - of_int f
      in if r < 1 / 2 then f else if 1 / 2 < r then f + 1 else if even f then f else f + 1)"

text \<open>
  Rounding of \<open>0 < x\<close>: with 53 significant bits, the last of them worth \<open>2 powi e\<close>,
  and never finer than the subnormal step \<open>2 powi (- 1074)\<close>. \<open>rd\<close> is symmetric
  around 0. The exponent is not bounded above here: \<open>fl\<close> below turns a rounded
  value that has left the binary64 range into an infinity.
\<close>

definition rd_pos :: "real \<Rightarrow> real" where
  "rd_pos x =
     (let e = max (exponent_of x - 52) (- 1074)
      in of_int (round_half_even (x / 2 powi e)) * 2 powi e)"

definition rd :: "real \<Rightarrow> real" where
  "rd x = (if x = 0 then 0 else if 0 < x then rd_pos x else - rd_pos (- x))"

text \<open>The values that 53 bits and the binary64 exponents can hold (no upper limit here).\<close>

definition representable :: "real \<Rightarrow> bool" where
  "representable b \<longleftrightarrow> (\<exists>m k. b = of_int m * 2 powi k \<and> \<bar>m\<bar> < 2 ^ 53 \<and> - 1074 \<le> k)"

section \<open>JavaScript numbers\<close>

text \<open>
  A number is \<^verbatim>\<open>NaN\<close>, one of the two infinities, or a finite binary64 value. The
  operations follow ECMA-262: a finite result is rounded by \<open>rd\<close>, and one whose
  rounded magnitude reaches \<open>2 ^ 1024\<close> is an infinity (\<open>fl\<close>). The two zeros are one
  value: the component divides by positive literals only, \<^verbatim>\<open>-0 || 0\<close> is \<^verbatim>\<open>0\<close>, and no
  comparison tells the zeros apart.
\<close>

datatype number = NaN | PosInfinity | NegInfinity | Fin real

definition fl :: "real \<Rightarrow> number" where
  "fl x =
     (let r = rd x
      in if 2 ^ 1024 \<le> r then PosInfinity
         else if r \<le> - (2 ^ 1024) then NegInfinity
         else Fin r)"


definition is_neg :: "number \<Rightarrow> bool" where
  "is_neg a = (case a of NegInfinity \<Rightarrow> True | Fin x \<Rightarrow> x < 0 | _ \<Rightarrow> False)"

text \<open>\<^verbatim>\<open>a + b\<close>\<close>

definition js_add :: "number \<Rightarrow> number \<Rightarrow> number" where
  "js_add a b =
     (if a = NaN \<or> b = NaN then NaN
      else case (a, b) of
        (Fin x, Fin y) \<Rightarrow> fl (x + y)
      | (Fin x, _) \<Rightarrow> b
      | (_, Fin y) \<Rightarrow> a
      | (_, _) \<Rightarrow> (if a = b then a else NaN))"

text \<open>\<^verbatim>\<open>a * b\<close>\<close>

definition js_mul :: "number \<Rightarrow> number \<Rightarrow> number" where
  "js_mul a b =
     (if a = NaN \<or> b = NaN then NaN
      else case (a, b) of
        (Fin x, Fin y) \<Rightarrow> fl (x * y)
      | (_, _) \<Rightarrow>
          (if a = Fin 0 \<or> b = Fin 0 then NaN
           else if is_neg a = is_neg b then PosInfinity else NegInfinity))"

text \<open>\<^verbatim>\<open>a / b\<close>\<close>

definition js_div :: "number \<Rightarrow> number \<Rightarrow> number" where
  "js_div a b =
     (if a = NaN \<or> b = NaN then NaN
      else case (a, b) of
        (Fin x, Fin y) \<Rightarrow>
          (if y = 0 then (if x = 0 then NaN else if x < 0 then NegInfinity else PosInfinity)
           else fl (x / y))
      | (Fin x, _) \<Rightarrow> Fin 0
      | (_, Fin y) \<Rightarrow> (if is_neg a = is_neg b then PosInfinity else NegInfinity)
      | (_, _) \<Rightarrow> NaN)"

text \<open>\<^verbatim>\<open>a < b\<close> and \<^verbatim>\<open>a > b\<close>: false as soon as one side is \<^verbatim>\<open>NaN\<close>.\<close>

definition js_lt :: "number \<Rightarrow> number \<Rightarrow> bool" where
  "js_lt a b =
     (case (a, b) of
        (NaN, _) \<Rightarrow> False
      | (_, NaN) \<Rightarrow> False
      | (Fin x, Fin y) \<Rightarrow> x < y
      | (NegInfinity, NegInfinity) \<Rightarrow> False
      | (NegInfinity, _) \<Rightarrow> True
      | (_, PosInfinity) \<Rightarrow> b \<noteq> a
      | (_, _) \<Rightarrow> False)"

definition js_gt :: "number \<Rightarrow> number \<Rightarrow> bool" where
  "js_gt a b = js_lt b a"

text \<open>\<^verbatim>\<open>isNaN(a)\<close> on a number.\<close>

definition isNaN :: "number \<Rightarrow> bool" where
  "isNaN a = (a = NaN)"

text \<open>\<^verbatim>\<open>a || 0\<close> on a number: \<^verbatim>\<open>NaN\<close> and zero are falsy.\<close>

definition or_zero :: "number \<Rightarrow> number" where
  "or_zero a = (if a = NaN \<or> a = Fin 0 then Fin 0 else a)"

text \<open>\<^verbatim>\<open>Math.min\<close>, \<^verbatim>\<open>Math.max\<close> of two numbers: \<^verbatim>\<open>NaN\<close> as soon as one argument is.\<close>

definition Math_min :: "number \<Rightarrow> number \<Rightarrow> number" where
  "Math_min a b = (if a = NaN \<or> b = NaN then NaN else if js_lt b a then b else a)"

definition Math_max :: "number \<Rightarrow> number \<Rightarrow> number" where
  "Math_max a b = (if a = NaN \<or> b = NaN then NaN else if js_lt a b then b else a)"

text \<open>\<^verbatim>\<open>Math.floor\<close>; \<^verbatim>\<open>Math.round\<close> rounds a tie towards plus infinity.\<close>

definition Math_floor :: "number \<Rightarrow> number" where
  "Math_floor a = (case a of Fin x \<Rightarrow> Fin (of_int \<lfloor>x\<rfloor>) | _ \<Rightarrow> a)"

definition Math_round :: "number \<Rightarrow> number" where
  "Math_round a = (case a of Fin x \<Rightarrow> Fin (of_int \<lfloor>x + 1 / 2\<rfloor>) | _ \<Rightarrow> a)"

text \<open>
  \<^verbatim>\<open>xs[i]\<close> for an array and a number: the element when \<open>i\<close> is an integer within
  the array, \<^verbatim>\<open>undefined\<close> (\<open>None\<close>) otherwise.
\<close>

definition js_index :: "'a list \<Rightarrow> number \<Rightarrow> 'a option" where
  "js_index xs i =
     (case i of
        Fin x \<Rightarrow>
          (if x = of_int \<lfloor>x\<rfloor> \<and> 0 \<le> x \<and> \<lfloor>x\<rfloor> < int (length xs)
           then Some (xs ! nat \<lfloor>x\<rfloor>) else None)
      | _ \<Rightarrow> None)"

section \<open>JavaScript strings\<close>

text \<open>A string is a sequence of UTF-16 code units.\<close>

type_synonym code_unit = "16 word"
type_synonym js_string = "code_unit list"

text \<open>An ASCII literal as a JavaScript string.\<close>

definition js :: "string \<Rightarrow> js_string" where
  "js s = map of_char s"

text \<open>The code units of \<^verbatim>\<open>WhiteSpace\<close> and \<^verbatim>\<open>LineTerminator\<close> (ECMA-262).\<close>

definition is_ws :: "code_unit \<Rightarrow> bool" where
  "is_ws c =
     (c \<in> set [0x09, 0x0A, 0x0B, 0x0C, 0x0D, 0x20, 0xA0, 0x1680, 0x2028, 0x2029,
               0x202F, 0x205F, 0x3000, 0xFEFF]
      \<or> (0x2000 \<le> c \<and> c \<le> 0x200A))"

text \<open>\<^verbatim>\<open>s.trim()\<close>\<close>

definition trim :: "js_string \<Rightarrow> js_string" where
  "trim s = rev (dropWhile is_ws (rev (dropWhile is_ws s)))"

definition is_digit :: "code_unit \<Rightarrow> bool" where
  "is_digit c = (0x30 \<le> c \<and> c \<le> 0x39)"

definition digit_val :: "code_unit \<Rightarrow> nat" where
  "digit_val c = unat c - 48"

definition digits_val :: "js_string \<Rightarrow> nat" where
  "digits_val ds = foldl (\<lambda>a c. 10 * a + digit_val c) 0 ds"

text \<open>The decimal value \<open>m * 10 ^ k\<close> for an integer exponent \<open>k\<close>.\<close>

definition scale10 :: "nat \<Rightarrow> int \<Rightarrow> real" where
  "scale10 m k = (if 0 \<le> k then real m * 10 ^ nat k else real m / 10 ^ nat (- k))"

text \<open>
  The exponent that an \<^verbatim>\<open>ExponentPart\<close> at the head of \<open>s\<close> denotes: \<^verbatim>\<open>e\<close> or
  \<^verbatim>\<open>E\<close>, an optional sign and at least one digit. An exponent indicator that no digit
  follows is not part of the literal: the exponent is 0 then (\<open>digits_val [] = 0\<close>).
\<close>

definition exponent_part :: "js_string \<Rightarrow> int" where
  "exponent_part s =
     (case s of
        [] \<Rightarrow> 0
      | c # r \<Rightarrow>
          (if c = 0x65 \<or> c = 0x45 then
             (case r of
                [] \<Rightarrow> 0
              | d # r' \<Rightarrow>
                  (if d = 0x2B then int (digits_val (takeWhile is_digit r'))
                   else if d = 0x2D then - int (digits_val (takeWhile is_digit r'))
                   else int (digits_val (takeWhile is_digit r))))
           else 0))"

text \<open>
  The longest prefix of \<open>s\<close> that is a \<^verbatim>\<open>StrUnsignedDecimalLiteral\<close>, as its value:
  \<^verbatim>\<open>Infinity\<close>, or digits with an optional fraction and exponent. \<open>None\<close> when no
  prefix is one.
\<close>

definition unsigned_literal :: "js_string \<Rightarrow> number option" where
  "unsigned_literal s =
     (if take 8 s = js ''Infinity'' then Some PosInfinity
      else
        let ip = takeWhile is_digit s;
            r1 = dropWhile is_digit s;
            dot = (r1 \<noteq> [] \<and> hd r1 = 0x2E);
            fp = (if dot then takeWhile is_digit (tl r1) else []);
            r2 = (if dot then dropWhile is_digit (tl r1) else r1)
        in if ip = [] \<and> fp = [] then None
           else Some (fl (scale10 (digits_val (ip @ fp)) (exponent_part r2 - int (length fp)))))"

definition js_neg :: "number \<Rightarrow> number" where
  "js_neg a = (case a of NaN \<Rightarrow> NaN | PosInfinity \<Rightarrow> NegInfinity
               | NegInfinity \<Rightarrow> PosInfinity | Fin x \<Rightarrow> Fin (- x))"

text \<open>
  \<^verbatim>\<open>parseFloat(s)\<close>: leading white space is skipped, then the longest prefix that is
  a \<^verbatim>\<open>StrDecimalLiteral\<close> is read; \<^verbatim>\<open>NaN\<close> when there is none. The value is the
  decimal value of the literal rounded to binary64 (in \<open>unsigned_literal\<close>).
\<close>

definition parseFloat :: "js_string \<Rightarrow> number" where
  "parseFloat s =
     (let t = dropWhile is_ws s in
      case t of
        [] \<Rightarrow> NaN
      | c # r \<Rightarrow>
          (if c = 0x2B then (case unsigned_literal r of None \<Rightarrow> NaN | Some v \<Rightarrow> v)
           else if c = 0x2D then (case unsigned_literal r of None \<Rightarrow> NaN | Some v \<Rightarrow> js_neg v)
           else (case unsigned_literal t of None \<Rightarrow> NaN | Some v \<Rightarrow> v)))"

section \<open>The form's data\<close>

text \<open>
  The three variants of \<^verbatim>\<open>SolarFlareForm\<close> share the interface \<^verbatim>\<open>SolarParameters\<close>:
  thirteen string fields. An object of that type is a total function from its keys;
  \<^verbatim>\<open>Object.keys\<close> and \<^verbatim>\<open>Object.values\<close> enumerate in the order of the object literal.
\<close>

datatype param_key =
  TOTUSJH | TOTBSQ | TOTPOT | TOTUSJZ | ABSNJZH | SAVNCPP | USFLUX
  | AREA_ACR | TOTFZ | MEANPOT | R_VALUE | EPSZ | SHRGT45

type_synonym SolarParameters = "param_key \<Rightarrow> js_string"

definition Object_keys :: "param_key list" where
  "Object_keys =
     [TOTUSJH, TOTBSQ, TOTPOT, TOTUSJZ, ABSNJZH, SAVNCPP, USFLUX,
      AREA_ACR, TOTFZ, MEANPOT, R_VALUE, EPSZ, SHRGT45]"

definition Object_values :: "SolarParameters \<Rightarrow> js_string list" where
  "Object_values parameters = map parameters Object_keys"

text \<open>
  \<^verbatim>\<open>ParameterInfo\<close>: the range of a field (its \<^verbatim>\<open>description\<close> is only displayed).
  \<^verbatim>\<open>parameterInfo\<close> is the same table in the two variants that have it.
\<close>

record ParameterInfo =
  info_min :: number
  info_max :: number

fun parameterInfo :: "param_key \<Rightarrow> ParameterInfo" where
  "parameterInfo TOTUSJH = \<lparr>info_min = Fin 0, info_max = Fin 10000\<rparr>"
| "parameterInfo TOTBSQ = \<lparr>info_min = Fin 0, info_max = Fin 5000\<rparr>"
| "parameterInfo TOTPOT = \<lparr>info_min = Fin 0, info_max = Fin 100000\<rparr>"
| "parameterInfo TOTUSJZ = \<lparr>info_min = Fin 0, info_max = Fin 5000\<rparr>"
| "parameterInfo ABSNJZH = \<lparr>info_min = Fin 0, info_max = Fin 1000\<rparr>"
| "parameterInfo SAVNCPP = \<lparr>info_min = Fin 0, info_max = Fin 500\<rparr>"
| "parameterInfo USFLUX = \<lparr>info_min = Fin 0, info_max = Fin 50000\<rparr>"
| "parameterInfo AREA_ACR = \<lparr>info_min = Fin 0, info_max = Fin 2000\<rparr>"
| "parameterInfo TOTFZ = \<lparr>info_min = Fin 0, info_max = Fin 1000\<rparr>"
| "parameterInfo MEANPOT = \<lparr>info_min = Fin 0, info_max = Fin 1000\<rparr>"
| "parameterInfo R_VALUE = \<lparr>info_min = Fin 0, info_max = Fin 5000\<rparr>"
| "parameterInfo EPSZ = \<lparr>info_min = Fin 0, info_max = Fin 100\<rparr>"
| "parameterInfo SHRGT45 = \<lparr>info_min = Fin 0, info_max = Fin 1\<rparr>"

text \<open>The initial value of the \<^verbatim>\<open>parameters\<close> state, and \<^verbatim>\<open>sampleData\<close> of the two
  variants with validation.\<close>

definition emptyParameters :: SolarParameters where
  "emptyParameters = (\<lambda>key. [])"

fun sampleData :: SolarParameters where
  "sampleData TOTUSJH = js ''3500''"
| "sampleData TOTBSQ = js ''2500''"
| "sampleData TOTPOT = js ''45000''"
| "sampleData TOTUSJZ = js ''2800''"
| "sampleData ABSNJZH = js ''420''"
| "sampleData SAVNCPP = js ''250''"
| "sampleData USFLUX = js ''25000''"
| "sampleData AREA_ACR = js ''450''"
| "sampleData TOTFZ = js ''500''"
| "sampleData MEANPOT = js ''850''"
| "sampleData R_VALUE = js ''3800''"
| "sampleData EPSZ = js ''50''"
| "sampleData SHRGT45 = js ''0.35''"

section \<open>Validation of one field\<close>

text \<open>
  \<^verbatim>\<open>validateParameter\<close> returns \<^verbatim>\<open>null\<close> (\<open>None\<close>) or one of two messages:
  \<^verbatim>\<open>'Invalid number'\<close>, or the template \<^verbatim>\<open>Value must be between ${info.min} and ${info.max}\<close>,
  kept here with the two numbers it prints. Both are non-empty strings, so the test
  \<^verbatim>\<open>if (error)\<close> of the caller is the test that the result is not \<open>None\<close>.
\<close>

datatype error_message = Invalid_number | Value_must_be_between number number

definition validateParameter :: "param_key \<Rightarrow> js_string \<Rightarrow> error_message option" where
  "validateParameter key val =
     (if trim val = [] then None
      else
        let numValue = parseFloat val in
        if isNaN numValue then Some Invalid_number
        else
          let info = parameterInfo key in
          if js_lt numValue (info_min info) \<or> js_gt numValue (info_max info)
          then Some (Value_must_be_between (info_min info) (info_max info))
          else None)"

section \<open>The classification variant (\<^verbatim>\<open>src/components/SolarFlareForm.tsx\<close>)\<close>

datatype binary_label = Major_Flare | No_Major_Flare

text \<open>\<^verbatim>\<open>final_class\<close> is the element read from \<^verbatim>\<open>mockClasses\<close>: \<open>None\<close> is \<^verbatim>\<open>undefined\<close>.\<close>

record PredictionResult =
  binary_prediction :: binary_label
  final_class :: "string option"
  confidence :: number

text \<open>The state of the component: the four \<^verbatim>\<open>useState\<close> cells.\<close>

record 'r form_state =
  parameters :: SolarParameters
  errors :: "param_key \<rightharpoonup> error_message"
  result :: "'r option"
  isLoading :: bool

definition mockClasses :: "string list" where
  "mockClasses = [''B'', ''C'', ''M'', ''X'', ''B/C'']"

text \<open>
  The body of the \<^verbatim>\<open>forEach\<close> of \<^verbatim>\<open>handleSubmit\<close>, on the pair of \<^verbatim>\<open>newErrors\<close> and
  \<^verbatim>\<open>hasErrors\<close>.
\<close>

definition validate_key ::
  "SolarParameters \<Rightarrow> (param_key \<rightharpoonup> error_message) \<times> bool \<Rightarrow> param_key
     \<Rightarrow> (param_key \<rightharpoonup> error_message) \<times> bool" where
  "validate_key params acc key =
     (case validateParameter key (params key) of
        None \<Rightarrow> acc
      | Some error \<Rightarrow> ((fst acc)(key \<mapsto> error), True))"

text \<open>
  The mock prediction of \<^verbatim>\<open>handleSubmit\<close>, lines 163 to 177. The literals \<^verbatim>\<open>0.4\<close>
  and \<^verbatim>\<open>0.98\<close> are the binary64 values nearest to them; the other literals are
  integers.
\<close>

definition mockPrediction :: "SolarParameters \<Rightarrow> PredictionResult" where
  "mockPrediction params =
     (let vals = map (\<lambda>v. or_zero (parseFloat v)) (Object_values params);
          avgValue = js_div (foldl (\<lambda>a b. js_add a b) (Fin 0) vals) (Fin (real (length vals)));
          classIndex = Math_min (Math_floor (js_div avgValue (Fin 2500))) (Fin 4);
          finalClass = js_index mockClasses classIndex;
          isMajorFlare = (finalClass = Some ''M'' \<or> finalClass = Some ''X'');
          conf = Math_min (Math_max (js_add (fl (4 / 10)) (js_div avgValue (Fin 20000)))
                   (fl (4 / 10))) (fl (98 / 100))
      in \<lparr>binary_prediction = (if isMajorFlare then Major_Flare else No_Major_Flare),
          final_class = finalClass,
          confidence = conf\<rparr>)"

text \<open>
  \<^verbatim>\<open>handleSubmit\<close>, as the state after the handler has run to its end. With an error
  it sets \<^verbatim>\<open>errors\<close> and returns. Otherwise it sets \<^verbatim>\<open>isLoading\<close>, waits two seconds,
  computes from the \<^verbatim>\<open>parameters\<close> it was called with, sets \<^verbatim>\<open>result\<close> and clears
  \<^verbatim>\<open>isLoading\<close>.
\<close>

definition handleSubmit :: "PredictionResult form_state \<Rightarrow> PredictionResult form_state" where
  "handleSubmit s =
     (let (newErrors, hasErrors) =
            foldl (validate_key (parameters s)) (Map.empty, False) Object_keys
      in if hasErrors then s\<lparr>errors := newErrors\<rparr>
         else s\<lparr>result := Some (mockPrediction (parameters s)), isLoading := False\<rparr>)"

section \<open>The probability variant with validation (first component of \<^verbatim>\<open>part_000\<close>)\<close>

datatype risk_level = Low | Medium | High

record ProbabilityResult =
  probability :: number
  riskLevel :: risk_level
  message :: string

text \<open>The mock prediction of \<^verbatim>\<open>handleSubmit\<close>, lines 162 to 184.\<close>

definition mockProbability :: "SolarParameters \<Rightarrow> ProbabilityResult" where
  "mockProbability params =
     (let vals = map (\<lambda>v. or_zero (parseFloat v)) (Object_values params);
          avgValue = js_div (foldl (\<lambda>a b. js_add a b) (Fin 0) vals) (Fin (real (length vals)));
          prob0 = Math_min (Math_max (js_mul (js_div avgValue (Fin 10000)) (Fin 100)) (Fin 5)) (Fin 95);
          prob = js_div (Math_round (js_mul prob0 (Fin 100))) (Fin 100)
      in if js_lt prob (Fin 30) then
           \<lparr>probability = prob, riskLevel = Low,
            message = ''Low probability of solar flare activity. Conditions appear stable.''\<rparr>
         else if js_lt prob (Fin 60) then
           \<lparr>probability = prob, riskLevel = Medium,
            message = ''Moderate probability of solar flare activity. Continue monitoring.''\<rparr>
         else
           \<lparr>probability = prob, riskLevel = High,
            message = ''High probability of solar flare activity. Enhanced monitoring recommended.''\<rparr>)"

definition handleSubmit_prob ::
  "ProbabilityResult form_state \<Rightarrow> ProbabilityResult form_state" where
  "handleSubmit_prob s =
     (let (newErrors, hasErrors) =
            foldl (validate_key (parameters s)) (Map.empty, False) Object_keys
      in if hasErrors then s\<lparr>errors := newErrors\<rparr>
         else s\<lparr>result := Some (mockProbability (parameters s)), isLoading := False\<rparr>)"

section \<open>The probability variant without validation (second component of \<^verbatim>\<open>part_000\<close>)\<close>

text \<open>
  This component has no \<^verbatim>\<open>parameterInfo\<close>, no \<^verbatim>\<open>validateParameter\<close> and no \<^verbatim>\<open>errors\<close>
  state: three \<^verbatim>\<open>useState\<close> cells.
\<close>

record plain_state =
  plain_parameters :: SolarParameters
  plain_result :: "ProbabilityResult option"
  plain_isLoading :: bool

text \<open>The mock prediction of its \<^verbatim>\<open>handleSubmit\<close>, lines 508 to 530.\<close>

definition mockProbability_plain :: "SolarParameters \<Rightarrow> ProbabilityResult" where
  "mockProbability_plain params =
     (let vals = map (\<lambda>v. or_zero (parseFloat v)) (Object_values params);
          avgValue = js_div (foldl (\<lambda>a b. js_add a b) (Fin 0) vals) (Fin (real (length vals)));
          prob0 = Math_min (Math_max (js_mul (js_div avgValue (Fin 10000)) (Fin 100)) (Fin 5)) (Fin 95);
          prob = js_div (Math_round (js_mul prob0 (Fin 100))) (Fin 100)
      in if js_lt prob (Fin 30) then
           \<lparr>probability = prob, riskLevel = Low,
            message = ''Low probability of solar flare activity. Conditions appear stable.''\<rparr>
         else if js_lt prob (Fin 60) then
           \<lparr>probability = prob, riskLevel = Medium,
            message = ''Moderate probability of solar flare activity. Continue monitoring.''\<rparr>
         else
           \<lparr>probability = prob, riskLevel = High,
            message = ''High probability of solar flare activity. Enhanced monitoring recommended.''\<rparr>)"

definition handleSubmit_plain :: "plain_state \<Rightarrow> plain_state" where
  "handleSubmit_plain s =
     s\<lparr>plain_result := Some (mockProbability_plain (plain_parameters s)),
       plain_isLoading := False\<rparr>"

text \<open>\<^verbatim>\<open>sampleData\<close> of this component.\<close>

fun sampleData_plain :: SolarParameters where
  "sampleData_plain TOTUSJH = js ''3500.5''"
| "sampleData_plain TOTBSQ = js ''125000.0''"
| "sampleData_plain TOTPOT = js ''8500.25''"
| "sampleData_plain TOTUSJZ = js ''28000.0''"
| "sampleData_plain ABSNJZH = js ''4200.0''"
| "sampleData_plain SAVNCPP = js ''15000.0''"
| "sampleData_plain USFLUX = js ''2.5e22''"
| "sampleData_plain AREA_ACR = js ''450.0''"
| "sampleData_plain TOTFZ = js ''1.2e22''"
| "sampleData_plain MEANPOT = js ''850.0''"
| "sampleData_plain R_VALUE = js ''3.8e24''"
| "sampleData_plain EPSZ = js ''0.015''"
| "sampleData_plain SHRGT45 = js ''0.35''"

section \<open>The notions the properties are stated with\<close>

text \<open>
  A form passes validation when \<^verbatim>\<open>validateParameter\<close> accepts each of its thirteen
  fields.
\<close>

definition passes_validation :: "SolarParameters \<Rightarrow> bool" where
  "passes_validation params =
     list_all (\<lambda>key. validateParameter key (params key) = None) Object_keys"

text \<open>
  The thirteen parsed values (\<^verbatim>\<open>parseFloat(v) || 0\<close> of each field); their sum as the
  code computes it, by binary64 additions from left to right starting at 0; and the
  average as the code computes it, that sum divided by 13 in binary64.
\<close>

definition parsed_values :: "SolarParameters \<Rightarrow> number list" where
  "parsed_values params = map (\<lambda>key. or_zero (parseFloat (params key))) Object_keys"

definition sum_values :: "SolarParameters \<Rightarrow> number" where
  "sum_values params = foldl js_add (Fin 0) (parsed_values params)"

definition average :: "SolarParameters \<Rightarrow> number" where
  "average params = js_div (sum_values params) (Fin 13)"

text \<open>The class index as the code computes it.\<close>

definition classIndex :: "SolarParameters \<Rightarrow> number" where
  "classIndex params = Math_min (Math_floor (js_div (average params) (Fin 2500))) (Fin 4)"

text \<open>
  The same quantities in exact arithmetic: the sum of the real numbers that the thirteen
  parsed values denote (a value that is not finite counts as 0 here; after validation
  every value is finite), and that sum divided by 13.
\<close>

definition number_value :: "number \<Rightarrow> real" where
  "number_value a = (case a of Fin x \<Rightarrow> x | _ \<Rightarrow> 0)"

definition exact_sum :: "SolarParameters \<Rightarrow> real" where
  "exact_sum params = sum_list (map number_value (parsed_values params))"

definition exact_average :: "SolarParameters \<Rightarrow> real" where
  "exact_average params = exact_sum params / 13"

text \<open>
  A number clamped to the interval from \<open>lo\<close> to \<open>hi\<close>: a value of that interval.
  \<^verbatim>\<open>NaN\<close> has none.
\<close>

definition clamp :: "real \<Rightarrow> real \<Rightarrow> number \<Rightarrow> real option" where
  "clamp lo hi a =
     (case a of
        NaN \<Rightarrow> None
      | PosInfinity \<Rightarrow> Some hi
      | NegInfinity \<Rightarrow> Some lo
      | Fin x \<Rightarrow> Some (if x < lo then lo else if hi < x then hi else x))"

text \<open>
  Rounding to two decimal places (a tie goes up): in exact arithmetic, and as binary64
  computes it, where the product by 100 and the quotient by 100 are both rounded.
\<close>

definition exact_round2 :: "real \<Rightarrow> real" where
  "exact_round2 x = of_int \<lfloor>x * 100 + 1 / 2\<rfloor> / 100"

definition round2 :: "real \<Rightarrow> real" where
  "round2 x = rd (of_int \<lfloor>rd (x * 100) + 1 / 2\<rfloor> / 100)"

text \<open>The risk level of a probability, and the message that goes with a risk level.\<close>

definition risk_of :: "number \<Rightarrow> risk_level" where
  "risk_of p = (if js_lt p (Fin 30) then Low else if js_lt p (Fin 60) then Medium else High)"


fun message_of :: "risk_level \<Rightarrow> string" where
  "message_of Low = ''Low probability of solar flare activity. Conditions appear stable.''"
| "message_of Medium = ''Moderate probability of solar flare activity. Continue monitoring.''"
| "message_of High =
     ''High probability of solar flare activity. Enhanced monitoring recommended.''"

text \<open>
  The state a component starts in, and \<^verbatim>\<open>fillSampleData\<close> of the variants with
  validation and of the one without.
\<close>

definition initial_state :: "'r form_state" where
  "initial_state =
     \<lparr>parameters = emptyParameters, errors = Map.empty, result = None, isLoading = False\<rparr>"

definition fillSampleData :: "'r form_state \<Rightarrow> 'r form_state" where
  "fillSampleData s = s\<lparr>parameters := sampleData, errors := Map.empty, result := None\<rparr>"

definition initial_plain_state :: plain_state where
  "initial_plain_state =
     \<lparr>plain_parameters = emptyParameters, plain_result = None, plain_isLoading = False\<rparr>"

definition fillSampleData_plain :: "plain_state \<Rightarrow> plain_state" where
  "fillSampleData_plain s = s\<lparr>plain_parameters := sampleData_plain, plain_result := None\<rparr>"

section \<open>Inputs to evaluate on\<close>

text \<open>
  A second assignment that passes validation: \<^verbatim>\<open>sampleData\<close> with 100 moved from the
  first field to the second.
\<close>

definition shiftedData :: SolarParameters where
  "shiftedData = sampleData(TOTUSJH := js ''3400'', TOTBSQ := js ''2600'')"

text \<open>
  Two assignments that hold the same three numbers and ten zeros: the second has
  \<^verbatim>\<open>2945.8\<close> in the fourth field instead of the second, so that it is added last.
\<close>

definition order_X :: SolarParameters where
  "order_X =
     (\<lambda>key. js ''0'')
       (TOTUSJH := js ''4987.1'', TOTBSQ := js ''2945.8'', TOTPOT := js ''24567.1'')"

definition order_Y :: SolarParameters where
  "order_Y =
     (\<lambda>key. js ''0'')
       (TOTUSJH := js ''4987.1'', TOTPOT := js ''24567.1'', TOTUSJZ := js ''2945.8'')"

text \<open>Four numbers whose decimal values add up to 65000, and nine zeros.\<close>

definition boundary_data :: SolarParameters where
  "boundary_data =
     (\<lambda>key. js ''0'')
       (TOTBSQ := js ''95.2'', TOTPOT := js ''64155.9'', TOTUSJZ := js ''688.7'',
        R_VALUE := js ''60.2'')"

text \<open>One number just below \<open>13 * 500.5\<close>, and twelve zeros.\<close>

definition below_half_data :: SolarParameters where
  "below_half_data = (\<lambda>key. js ''0'')(TOTPOT := js ''6506.499999999999'')"

text \<open>
  One number beside twelve empty fields, and the same number beside twelve fields that
  hold a word.
\<close>

definition lone_number :: SolarParameters where
  "lone_number = emptyParameters(TOTPOT := js ''65000'')"

definition lone_number_words :: SolarParameters where
  "lone_number_words = (\<lambda>key. js ''abc'')(TOTPOT := js ''65000'')"

text \<open>
  Two states to evaluate on. In the first, of a variant with validation, the sample data
  has a negative number in one field and a word in another. The second is a state of
  the variant without validation, with a negative number in one field.
\<close>

definition rejected_state :: "'r form_state" where
  "rejected_state = initial_state\<lparr>parameters := sampleData(TOTUSJH := js ''-5'', EPSZ := js ''abc'')\<rparr>"

definition unvalidated_state :: plain_state where
  "unvalidated_state =
     initial_plain_state\<lparr>plain_parameters := (\<lambda>key. js ''0'')(TOTUSJH := js ''-5'')\<rparr>"

text \<open>
  A state of the variant without validation with \<^verbatim>\<open>Infinity\<close> in one field and
  \<^verbatim>\<open>-Infinity\<close> in another.
\<close>

definition infinite_state :: plain_state where
  "infinite_state =
     initial_plain_state
       \<lparr>plain_parameters := (\<lambda>key. js ''0'')(TOTUSJH := js ''Infinity'', TOTBSQ := js ''-Infinity'')\<rparr>"

section \<open>Facts about rounding\<close>

lemma bit_length_0 [simp]: "bit_length 0 = 0"
  by (simp add: bit_length.simps)

lemma bit_length_1 [simp]: "bit_length (Suc 0) = Suc 0"
  by (simp add: bit_length.simps)

lemma bit_length_numeral [simp]:
  "bit_length (numeral k) = Suc (bit_length (numeral k div 2))"
  by (subst bit_length.simps) simp


lemma bit_length_upper: "n < 2 ^ bit_length n"
proof (induction n rule: bit_length.induct)
  case (1 n)
  show ?case
  proof (cases "n = 0")
    case True
    then show ?thesis by simp
  next
    case False
    then have "n div 2 < 2 ^ bit_length (n div 2)"
      using "1.IH" by simp
    then have "n < 2 * 2 ^ bit_length (n div 2)"
      by linarith
    moreover have "bit_length n = Suc (bit_length (n div 2))"
      using False by (subst bit_length.simps) simp
    ultimately show ?thesis by simp
  qed
qed

lemma bit_length_lower: "0 < n \<Longrightarrow> 2 ^ (bit_length n - 1) \<le> n"
proof (induction n rule: bit_length.induct)
  case (1 n)
  then have n: "n \<noteq> 0" by simp
  have bl: "bit_length n = Suc (bit_length (n div 2))"
    using n by (subst bit_length.simps) simp
  show ?case
  proof (cases "n div 2 = 0")
    case True
    then show ?thesis using n bl by simp
  next
    case False
    then have "2 ^ (bit_length (n div 2) - 1) \<le> n div 2"
      using "1.IH" n by simp
    moreover have "0 < bit_length (n div 2)"
      using False by (subst bit_length.simps) simp
    ultimately have "2 ^ bit_length (n div 2) \<le> 2 * (n div 2)"
      by (cases "bit_length (n div 2)") simp_all
    then show ?thesis
      using bl by simp
  qed
qed

lemma powi_nat: "(2::real) powi int k = 2 ^ k"
  by simp

lemma powi_neg_nat: "(2::real) powi (- int k) = 1 / 2 ^ k"
  by (simp add: power_int_minus field_simps)

lemma exponent_of_lower:
  assumes "0 < x"
  shows "2 powi exponent_of x \<le> x"
proof (cases "1 \<le> x")
  case True
  define n where "n = nat \<lfloor>x\<rfloor>"
  have n: "0 < n" "real n \<le> x"
    using True by (simp_all add: n_def)
  have "(2::real) ^ (bit_length n - 1) \<le> real n"
    using bit_length_lower [OF n(1)] by (metis of_nat_le_iff of_nat_numeral of_nat_power)
  then have "(2::real) ^ (bit_length n - 1) \<le> x"
    using n(2) by linarith
  moreover have "0 < bit_length n"
    using n(1) by (subst bit_length.simps) simp
  then have "exponent_of x = int (bit_length n - 1)"
    using True by (simp add: exponent_of_def n_def)
  ultimately show ?thesis
    by (simp add: power_int_def)
next
  case False
  define c where "c = \<lceil>1 / x\<rceil>"
  define n where "n = nat (c - 1)"
  have "1 < 1 / x" using False assms by simp
  then have "1 < c"
    by (simp add: c_def less_ceiling_iff)
  then have "real n + 1 = of_int c"
    unfolding n_def by simp
  then have "1 / x \<le> real n + 1"
    by (simp add: c_def le_of_int_ceiling)
  moreover have "real n + 1 \<le> 2 ^ bit_length n"
  proof -
    have "Suc n \<le> 2 ^ bit_length n"
      using bit_length_upper [of n] by simp
    then have "real (Suc n) \<le> real (2 ^ bit_length n)"
      by (simp only: of_nat_le_iff)
    then show ?thesis by simp
  qed
  ultimately have "1 / x \<le> 2 ^ bit_length n" by linarith
  then have "1 / 2 ^ bit_length n \<le> x"
    using assms by (simp add: field_simps)
  moreover have "exponent_of x = - int (bit_length n)"
    using False by (simp add: exponent_of_def n_def c_def)
  ultimately show ?thesis
    by (simp only: powi_neg_nat)
qed

lemma exponent_of_upper:
  assumes "0 < x"
  shows "x < 2 powi (exponent_of x + 1)"
proof (cases "1 \<le> x")
  case True
  define n where "n = nat \<lfloor>x\<rfloor>"
  have n: "0 < n" "x < real n + 1"
    using True by (simp_all add: n_def)
  have "Suc n \<le> 2 ^ bit_length n"
    using bit_length_upper [of n] by simp
  then have "real (Suc n) \<le> real (2 ^ bit_length n)"
    by (simp only: of_nat_le_iff)
  then have "x < 2 ^ bit_length n"
    using n(2) by simp
  moreover have "exponent_of x + 1 = int (bit_length n)"
    using True by (simp add: exponent_of_def n_def)
  ultimately show ?thesis
    by (simp add: power_int_def)
next
  case False
  define n where "n = nat (\<lceil>1 / x\<rceil> - 1)"
  have y: "1 < 1 / x" using False assms by simp
  then have n: "0 < n" "real n < 1 / x"
    unfolding n_def by (simp_all add: less_ceiling_iff) linarith
  have "(2::real) ^ (bit_length n - 1) \<le> real n"
    using bit_length_lower [OF n(1)] by (metis of_nat_le_iff of_nat_numeral of_nat_power)
  then have "2 ^ (bit_length n - 1) < 1 / x"
    using n(2) by linarith
  then have "x < 1 / 2 ^ (bit_length n - 1)"
    using assms by (simp add: field_simps)
  moreover have "0 < bit_length n"
    using n(1) by (subst bit_length.simps) simp
  then have "exponent_of x + 1 = - int (bit_length n - 1)"
    using False by (simp add: exponent_of_def n_def)
  ultimately show ?thesis
    by (simp only: powi_neg_nat)
qed

lemma round_half_even_bounds:
  "\<lfloor>q\<rfloor> \<le> round_half_even q" "round_half_even q \<le> \<lfloor>q\<rfloor> + 1"
  by (simp_all add: round_half_even_def Let_def)

lemma round_half_even_int [simp]: "round_half_even (of_int n) = n"
  by (simp add: round_half_even_def)

lemma round_half_even_ge:
  assumes "of_int n \<le> q"
  shows "n \<le> round_half_even q"
proof -
  have "n \<le> \<lfloor>q\<rfloor>"
    using assms by (simp add: le_floor_iff)
  then show ?thesis
    using round_half_even_bounds(1) [of q] by linarith
qed

lemma round_half_even_le:
  assumes "q \<le> of_int n"
  shows "round_half_even q \<le> n"
proof (cases "q = of_int \<lfloor>q\<rfloor>")
  case True
  then have "round_half_even q = \<lfloor>q\<rfloor>"
    by (metis round_half_even_int)
  moreover have "\<lfloor>q\<rfloor> \<le> n"
    using assms by (metis floor_mono floor_of_int)
  ultimately show ?thesis
    by linarith
next
  case False
  then have "of_int \<lfloor>q\<rfloor> < q"
    using of_int_floor_le [of q] by linarith
  then have "of_int \<lfloor>q\<rfloor> < (of_int n :: real)"
    using assms by linarith
  then have "\<lfloor>q\<rfloor> + 1 \<le> n" by simp
  then show ?thesis
    using round_half_even_bounds(2) [of q] by linarith
qed


lemma powi_add52: "(2::real) powi (e + 52) = 2 ^ 52 * 2 powi e"
proof -
  have "(2::real) powi (52 + e) = 2 powi 52 * 2 powi e"
    by (rule power_int_add) simp
  then show ?thesis
    by (simp add: add.commute)
qed

lemma rd_pos_bounds:
  assumes x: "0 < x" and b: "b = of_int m * 2 powi k" and m: "\<bar>m\<bar> < 2 ^ 53" and k: "- 1074 \<le> k"
  shows "x \<le> b \<Longrightarrow> rd_pos x \<le> b" and "b \<le> x \<Longrightarrow> b \<le> rd_pos x"
proof -
  define e where "e = max (exponent_of x - 52) (- 1074)"
  define q where "q = x / 2 powi e"
  have pe: "(0::real) < 2 powi e" by simp
  have rdp: "rd_pos x = of_int (round_half_even q) * 2 powi e"
    by (simp add: rd_pos_def Let_def e_def q_def)
  have P: "e = - 1074 \<or> 2 powi (e + 52) \<le> x"
  proof (cases "- 1074 \<le> exponent_of x - 52")
    case True
    then have "e + 52 = exponent_of x" by (simp add: e_def)
    then show ?thesis using exponent_of_lower [OF x] by simp
  next
    case False
    then show ?thesis by (simp add: e_def)
  qed
  have small: "b < 2 powi (e + 52)" if "k < e"
  proof -
    have "of_int m < (2::real) ^ 53"
      using m by (metis abs_less_iff of_int_less_numeral_power_cancel_iff)
    then have a: "b < 2 ^ 53 * 2 powi k"
      unfolding b by (intro mult_strict_right_mono) simp_all
    have "(2::real) powi k \<le> 2 powi (e - 1)"
      using that by (intro power_int_increasing) simp_all
    then have c: "(2::real) ^ 53 * 2 powi k \<le> 2 ^ 53 * 2 powi (e - 1)"
      by simp
    have "(2::real) powi (53 + (e - 1)) = 2 powi 53 * 2 powi (e - 1)"
      by (rule power_int_add) simp
    moreover have "53 + (e - 1) = e + 52" by simp
    ultimately have d: "(2::real) ^ 53 * 2 powi (e - 1) = 2 powi (e + 52)"
      by simp
    show ?thesis using a c d by linarith
  qed
  have big: "of_int (2 ^ 52) \<le> q" if "2 powi (e + 52) \<le> x"
  proof -
    have "2 ^ 52 * 2 powi e \<le> x"
      using that by (simp only: powi_add52)
    then have "2 ^ 52 \<le> x / 2 powi e"
      using pe by (simp add: pos_le_divide_eq)
    then show ?thesis by (simp add: q_def)
  qed
  have scale: "\<exists>N. b = of_int N * 2 powi e" if "e \<le> k"
  proof -
    have 1: "(2::real) powi k = 2 powi (int (nat (k - e)) + e)"
      using that by simp
    have 2: "(2::real) powi (int (nat (k - e)) + e) = 2 powi int (nat (k - e)) * 2 powi e"
      by (rule power_int_add) simp
    have "b = of_int m * (2 ^ nat (k - e) * 2 powi e)"
      by (simp only: b 1 2 powi_nat)
    then have "b = of_int (m * 2 ^ nat (k - e)) * 2 powi e"
      by simp
    then show ?thesis by blast
  qed
  show "rd_pos x \<le> b" if le: "x \<le> b"
  proof (cases "e \<le> k")
    case True
    then obtain N where N: "b = of_int N * 2 powi e"
      using scale by blast
    have "q \<le> of_int N"
      using le pe unfolding q_def N by (simp add: pos_divide_le_eq)
    then have "round_half_even q \<le> N"
      by (rule round_half_even_le)
    then have "(of_int (round_half_even q) :: real) \<le> of_int N"
      by simp
    then show ?thesis
      unfolding rdp N using pe by (intro mult_right_mono) simp_all
  next
    case False
    then have "b < 2 powi (e + 52)" using small by simp
    moreover have "e \<noteq> - 1074" using False k by linarith
    then have "2 powi (e + 52) \<le> x" using P by blast
    ultimately show ?thesis using le by linarith
  qed
  show "b \<le> rd_pos x" if ge: "b \<le> x"
  proof (cases "e \<le> k")
    case True
    then obtain N where N: "b = of_int N * 2 powi e"
      using scale by blast
    have "of_int N \<le> q"
      using ge pe unfolding q_def N by (simp add: pos_le_divide_eq)
    then have "N \<le> round_half_even q"
      by (rule round_half_even_ge)
    then have "(of_int N :: real) \<le> of_int (round_half_even q)"
      by simp
    then show ?thesis
      unfolding rdp N using pe by (intro mult_right_mono) simp_all
  next
    case False
    then have b: "b < 2 powi (e + 52)" using small by simp
    have "e \<noteq> - 1074" using False k by linarith
    then have "2 powi (e + 52) \<le> x" using P by blast
    then have "2 ^ 52 \<le> round_half_even q"
      using big round_half_even_ge by blast
    then have "(of_int (2 ^ 52) :: real) \<le> of_int (round_half_even q)"
      by (simp only: of_int_le_iff)
    then have "of_int (2 ^ 52) * 2 powi e \<le> rd_pos x"
      unfolding rdp using pe by (intro mult_right_mono) simp_all
    then show ?thesis using b by (simp add: powi_add52)
  qed
qed

lemma representable_minus:
  assumes "representable b"
  shows "representable (- b)"
proof -
  obtain m k where b: "b = of_int m * 2 powi k" "\<bar>m\<bar> < 2 ^ 53" "- 1074 \<le> k"
    using assms unfolding representable_def by blast
  have "- b = of_int (- m) * 2 powi k" "\<bar>- m\<bar> < 2 ^ 53"
    using b by simp_all
  then show ?thesis
    unfolding representable_def using b(3) by blast
qed

lemma rd_minus: "rd (- x) = - rd x"
  by (simp add: rd_def)

lemma rd_le:
  assumes "representable b" and "x \<le> b"
  shows "rd x \<le> b"
proof -
  obtain m k where b: "b = of_int m * 2 powi k" "\<bar>m\<bar> < 2 ^ 53" "- 1074 \<le> k"
    using assms(1) unfolding representable_def by blast
  have b': "- b = of_int (- m) * 2 powi k" "\<bar>- m\<bar> < 2 ^ 53"
    using b by simp_all
  consider "x = 0" | "0 < x" | "x < 0" by linarith
  then show ?thesis
  proof cases
    case 1
    then show ?thesis using assms(2) by (simp add: rd_def)
  next
    case 2
    then show ?thesis
      using rd_pos_bounds(1) [OF 2 b assms(2)] by (simp add: rd_def)
  next
    case 3
    then have "- b \<le> rd_pos (- x)"
      using rd_pos_bounds(2) [OF _ b' b(3)] assms(2) by simp
    then show ?thesis using 3 by (simp add: rd_def)
  qed
qed

lemma rd_ge:
  assumes "representable b" and "b \<le> x"
  shows "b \<le> rd x"
proof -
  have "rd (- x) \<le> - b"
    using assms by (intro rd_le representable_minus) simp_all
  then show ?thesis by (simp add: rd_minus)
qed

lemma rd_representable: "representable b \<Longrightarrow> rd b = b"
  using rd_le [of b b] rd_ge [of b b] by simp

lemma representable_int: "\<bar>n\<bar> < 2 ^ 53 \<Longrightarrow> representable (of_int n)"
  unfolding representable_def by (intro exI [of _ n] exI [of _ 0]) simp

lemma representable_0 [simp]: "representable 0"
  using representable_int [of 0] by simp

lemma rd_nonneg: "0 \<le> x \<Longrightarrow> 0 \<le> rd x"
  by (rule rd_ge) simp_all

section \<open>Evaluation and basic facts\<close>

lemmas rd_eval = rd_def rd_pos_def exponent_of_def round_half_even_def Let_def

lemmas eval_defs =
  parseFloat_def js_def is_ws_def unsigned_literal_def is_digit_def digits_val_def
  digit_val_def scale10_def exponent_part_def fl_def rd_eval js_neg_def
  js_lt_def js_gt_def

lemmas number_defs = js_add_def js_div_def js_mul_def Math_min_def Math_max_def Math_floor_def
  Math_round_def or_zero_def js_index_def

lemma rd_0 [simp]: "rd 0 = 0"
  by (simp add: rd_def)

lemma fl_zero: "fl 0 = Fin 0"
  by (simp add: fl_def)

lemma fl_between:
  assumes "of_int a \<le> x" and "x \<le> of_int b" and "\<bar>a\<bar> < 2 ^ 53" and "\<bar>b\<bar> < 2 ^ 53"
  shows "\<exists>y. fl x = Fin y \<and> y = rd x \<and> of_int a \<le> y \<and> y \<le> of_int b"
proof -
  have lo: "of_int a \<le> rd x"
    using assms(1,3) by (intro rd_ge representable_int)
  have hi: "rd x \<le> of_int b"
    using assms(2,4) by (intro rd_le representable_int)
  have "b < 2 ^ 53" using assms(4) by linarith
  then have "(of_int b :: real) < of_int (2 ^ 53)"
    by (simp only: of_int_less_iff)
  then have "rd x < 2 ^ 53"
    using hi by simp
  moreover have "(2::real) ^ 53 < 2 ^ 1024"
    by (rule power_strict_increasing) simp_all
  ultimately have up: "rd x < 2 ^ 1024"
    by (rule less_trans)
  have "- (2 ^ 53) < a" using assms(3) by linarith
  then have "(of_int (- (2 ^ 53)) :: real) < of_int a"
    by (simp only: of_int_less_iff)
  then have "- (2 ^ 53) < rd x"
    using lo by simp
  moreover have "- ((2::real) ^ 1024) < - (2 ^ 53)"
    by simp
  ultimately have dn: "- (2 ^ 1024) < rd x"
    by (rule less_trans [rotated])
  from up dn have "fl x = Fin (rd x)"
    by (simp add: fl_def Let_def)
  then show ?thesis
    using lo hi by simp
qed

lemma js_lt_Fin [simp]: "js_lt (Fin x) (Fin y) \<longleftrightarrow> x < y"
  by (simp add: js_lt_def)

lemma js_lt_NaN [simp]: "\<not> js_lt NaN b" "\<not> js_lt a NaN"
  by (auto simp: js_lt_def split: number.splits)

lemma trim_Nil_iff: "trim v = [] \<longleftrightarrow> list_all is_ws v"
proof
  assume "trim v = []"
  then have "dropWhile is_ws (rev (dropWhile is_ws v)) = []"
    by (simp add: trim_def)
  then have all: "\<forall>c \<in> set (dropWhile is_ws v). is_ws c"
    by (simp add: dropWhile_eq_Nil_conv)
  have "dropWhile is_ws v = []"
  proof (rule ccontr)
    assume ne: "dropWhile is_ws v \<noteq> []"
    then have "\<not> is_ws (hd (dropWhile is_ws v))"
      by (rule hd_dropWhile)
    moreover have "hd (dropWhile is_ws v) \<in> set (dropWhile is_ws v)"
      using ne by simp
    ultimately show False using all by blast
  qed
  then show "list_all is_ws v"
    by (simp add: dropWhile_eq_Nil_conv list_all_iff)
next
  assume "list_all is_ws v"
  then have h: "dropWhile is_ws v = []"
    by (simp add: dropWhile_eq_Nil_conv list_all_iff)
  show "trim v = []"
    by (simp only: trim_def h rev.simps dropWhile.simps)
qed

lemma parseFloat_blank: "list_all is_ws v \<Longrightarrow> parseFloat v = NaN"
proof -
  assume "list_all is_ws v"
  then have h: "dropWhile is_ws v = []"
    by (simp add: dropWhile_eq_Nil_conv list_all_iff)
  show ?thesis
    by (simp only: parseFloat_def h Let_def list.case)
qed

lemma info_min_zero: "info_min (parameterInfo key) = Fin 0"
  by (cases key) simp_all

lemma info_max_bound: "\<exists>m. info_max (parameterInfo key) = Fin m \<and> 1 \<le> m \<and> m \<le> 100000"
  by (cases key) simp_all

lemma set_Object_keys: "set Object_keys = UNIV"
proof -
  have "key \<in> set Object_keys" for key
    by (cases key) (simp_all add: Object_keys_def)
  then show ?thesis by blast
qed

lemma length_Object_keys: "length Object_keys = 13"
  by (simp add: Object_keys_def)

lemma passes_validation_iff:
  "passes_validation params \<longleftrightarrow> (\<forall>key. validateParameter key (params key) = None)"
  by (simp add: passes_validation_def list_all_iff set_Object_keys)

lemma validate_fold:
  "foldl (validate_key params) (E, b) ks =
     ((\<lambda>key. if key \<in> set ks \<and> validateParameter key (params key) \<noteq> None
             then validateParameter key (params key) else E key),
      b \<or> (\<exists>key \<in> set ks. validateParameter key (params key) \<noteq> None))"
proof (induction ks arbitrary: E b)
  case Nil
  show ?case by simp
next
  case (Cons k ks)
  show ?case
  proof (cases "validateParameter k (params k)")
    case None
    then have "validate_key params (E, b) k = (E, b)"
      by (simp add: validate_key_def)
    with None show ?thesis
      by (auto simp: Cons.IH fun_eq_iff)
  next
    case (Some e)
    then have "validate_key params (E, b) k = (E(k \<mapsto> e), True)"
      by (simp add: validate_key_def)
    with Some show ?thesis
      by (auto simp: Cons.IH fun_eq_iff)
  qed
qed

lemma validate_all:
  "foldl (validate_key params) (Map.empty, False) Object_keys =
     ((\<lambda>key. validateParameter key (params key)), \<not> passes_validation params)"
  by (auto simp: validate_fold set_Object_keys passes_validation_iff fun_eq_iff)

lemma handleSubmit_eq:
  "handleSubmit s =
     (if passes_validation (parameters s)
      then s\<lparr>result := Some (mockPrediction (parameters s)), isLoading := False\<rparr>
      else s\<lparr>errors := (\<lambda>key. validateParameter key (parameters s key))\<rparr>)"
  by (simp add: handleSubmit_def validate_all)

lemma handleSubmit_prob_eq:
  "handleSubmit_prob s =
     (if passes_validation (parameters s)
      then s\<lparr>result := Some (mockProbability (parameters s)), isLoading := False\<rparr>
      else s\<lparr>errors := (\<lambda>key. validateParameter key (parameters s key))\<rparr>)"
  by (simp add: handleSubmit_prob_def validate_all)

lemma valid_value:
  assumes "validateParameter key v = None"
  shows "\<exists>x. or_zero (parseFloat v) = Fin x \<and> 0 \<le> x \<and> x \<le> 100000"
proof (cases "list_all is_ws v")
  case True
  then show ?thesis
    by (simp add: parseFloat_blank or_zero_def)
next
  case False
  obtain m where m: "info_max (parameterInfo key) = Fin m" "m \<le> 100000"
    using info_max_bound by blast
  from assms False have nn: "parseFloat v \<noteq> NaN"
    and lo: "\<not> js_lt (parseFloat v) (Fin 0)"
    and hi: "\<not> js_lt (Fin m) (parseFloat v)"
    by (auto simp: validateParameter_def trim_Nil_iff isNaN_def Let_def info_min_zero m
        js_gt_def split: if_splits)
  show ?thesis
  proof (cases "parseFloat v")
    case (Fin x)
    with lo hi m show ?thesis
      by (auto simp: or_zero_def)
  qed (use nn lo hi in \<open>auto simp: js_lt_def\<close>)
qed

lemma foldl_add_Fin:
  assumes "\<forall>v \<in> set vs. \<exists>x. v = Fin x \<and> 0 \<le> x \<and> x \<le> 100000"
    and "0 \<le> a" and "a \<le> of_int n" and "0 \<le> n"
    and "n + 100000 * int (length vs) < 2 ^ 53"
  shows "\<exists>t. foldl js_add (Fin a) vs = Fin t \<and> 0 \<le> t
           \<and> t \<le> of_int (n + 100000 * int (length vs))"
  using assms
proof (induction vs arbitrary: a n)
  case Nil
  then show ?case by simp
next
  case (Cons v vs)
  then obtain x where x: "v = Fin x" "0 \<le> x" "x \<le> 100000"
    by auto
  have "\<exists>y. fl (a + x) = Fin y \<and> y = rd (a + x) \<and> of_int 0 \<le> y \<and> y \<le> of_int (n + 100000)"
  proof (rule fl_between)
    show "of_int 0 \<le> a + x" using x Cons.prems(2) by simp
    show "a + x \<le> of_int (n + 100000)" using x Cons.prems(3) by simp
    show "\<bar>0::int\<bar> < 2 ^ 53" by simp
    show "\<bar>n + 100000\<bar> < 2 ^ 53" using Cons.prems(4,5) by simp
  qed
  then obtain y where y: "js_add (Fin a) v = Fin y" "0 \<le> y" "y \<le> of_int (n + 100000)"
    using x by (auto simp: js_add_def)
  have "\<exists>t. foldl js_add (Fin y) vs = Fin t \<and> 0 \<le> t
            \<and> t \<le> of_int ((n + 100000) + 100000 * int (length vs))"
  proof (rule Cons.IH)
    show "\<forall>v \<in> set vs. \<exists>x. v = Fin x \<and> 0 \<le> x \<and> x \<le> 100000"
      using Cons.prems(1) by simp
    show "0 \<le> y" by (rule y(2))
    show "y \<le> of_int (n + 100000)" by (rule y(3))
    show "0 \<le> n + 100000" using Cons.prems(4) by simp
    show "n + 100000 + 100000 * int (length vs) < 2 ^ 53"
      using Cons.prems(5) by simp
  qed
  then show ?case
    using y(1) by (simp add: algebra_simps)
qed

lemma valid_sum:
  assumes "passes_validation params"
  shows "\<exists>t. sum_values params = Fin t \<and> 0 \<le> t \<and> t \<le> 1300000"
proof -
  have "\<forall>v \<in> set (parsed_values params). \<exists>x. v = Fin x \<and> 0 \<le> x \<and> x \<le> 100000"
    using assms valid_value by (auto simp: parsed_values_def passes_validation_iff)
  moreover have "length (parsed_values params) = 13"
    by (simp add: parsed_values_def length_Object_keys)
  ultimately show ?thesis
    using foldl_add_Fin [of "parsed_values params" 0 0]
    by (simp add: sum_values_def)
qed

lemma valid_average:
  assumes "passes_validation params"
  shows "\<exists>a. average params = Fin a \<and> 0 \<le> a \<and> a \<le> 100000"
proof -
  obtain t where t: "sum_values params = Fin t" "0 \<le> t" "t \<le> 1300000"
    using valid_sum [OF assms] by blast
  have "\<exists>y. fl (t / 13) = Fin y \<and> y = rd (t / 13) \<and> of_int 0 \<le> y \<and> y \<le> of_int 100000"
    using t by (intro fl_between) simp_all
  then show ?thesis
    using t by (auto simp: average_def js_div_def)
qed

lemma code_average:
  "js_div (foldl (\<lambda>a b. js_add a b) (Fin 0)
       (map (\<lambda>v. or_zero (parseFloat v)) (Object_values params)))
     (Fin (real (length (map (\<lambda>v. or_zero (parseFloat v)) (Object_values params)))))
   = average params"
  by (simp add: average_def sum_values_def parsed_values_def Object_values_def
      length_Object_keys comp_def)

lemma mockPrediction_average:
  "mockPrediction params =
     \<lparr>binary_prediction =
        (if js_index mockClasses (classIndex params) = Some ''M'' \<or>
            js_index mockClasses (classIndex params) = Some ''X''
         then Major_Flare else No_Major_Flare),
      final_class = js_index mockClasses (classIndex params),
      confidence =
        Math_min (Math_max (js_add (fl (4 / 10)) (js_div (average params) (Fin 20000)))
          (fl (4 / 10))) (fl (98 / 100))\<rparr>"
  unfolding mockPrediction_def Let_def code_average classIndex_def by (rule refl)

lemma js_index_int:
  "0 \<le> i \<Longrightarrow> i < int (length xs) \<Longrightarrow> js_index xs (Fin (of_int i)) = Some (xs ! nat i)"
  by (simp add: js_index_def)

lemma valid_classIndex:
  assumes "passes_validation params"
  shows "\<exists>a. average params = Fin a \<and> 0 \<le> a \<and> a \<le> 100000 \<and>
             classIndex params = Fin (of_int (min \<lfloor>rd (a / 2500)\<rfloor> 4)) \<and>
             0 \<le> \<lfloor>rd (a / 2500)\<rfloor>"
proof -
  obtain a where a: "average params = Fin a" "0 \<le> a" "a \<le> 100000"
    using valid_average [OF assms] by blast
  have "\<exists>y. fl (a / 2500) = Fin y \<and> y = rd (a / 2500) \<and> of_int 0 \<le> y \<and> y \<le> of_int 40"
    using a by (intro fl_between) simp_all
  then have d: "js_div (Fin a) (Fin 2500) = Fin (rd (a / 2500))" and nn: "0 \<le> rd (a / 2500)"
    by (auto simp: js_div_def)
  have "Math_min (Fin (of_int \<lfloor>rd (a / 2500)\<rfloor>)) (Fin 4)
      = Fin (of_int (min \<lfloor>rd (a / 2500)\<rfloor> 4))"
    by (simp add: Math_min_def min_def)
  then have "classIndex params = Fin (of_int (min \<lfloor>rd (a / 2500)\<rfloor> 4))"
    by (simp add: classIndex_def a d Math_floor_def)
  moreover have "0 \<le> \<lfloor>rd (a / 2500)\<rfloor>"
    using nn by simp
  ultimately show ?thesis
    using a by blast
qed

lemma clamp_code:
  assumes "lo \<le> hi"
  shows "(a = NaN \<longrightarrow> Math_min (Math_max a (Fin lo)) (Fin hi) = NaN \<and> clamp lo hi a = None) \<and>
         (a \<noteq> NaN \<longrightarrow> (\<exists>c. clamp lo hi a = Some c \<and> lo \<le> c \<and> c \<le> hi \<and>
                           Math_min (Math_max a (Fin lo)) (Fin hi) = Fin c))"
  using assms by (cases a) (auto simp: Math_min_def Math_max_def clamp_def js_lt_def)

lemma round2_code:
  assumes "5 \<le> c" and "c \<le> 95"
  shows "js_div (Math_round (js_mul (Fin c) (Fin 100))) (Fin 100) = Fin (round2 c)
         \<and> 5 \<le> round2 c \<and> round2 c \<le> 95"
proof -
  have "\<exists>y. fl (c * 100) = Fin y \<and> y = rd (c * 100) \<and> of_int 500 \<le> y \<and> y \<le> of_int 9500"
    using assms by (intro fl_between) simp_all
  then have m: "js_mul (Fin c) (Fin 100) = Fin (rd (c * 100))"
    and b: "500 \<le> rd (c * 100)" "rd (c * 100) \<le> 9500"
    by (auto simp: js_mul_def)
  define k where "k = \<lfloor>rd (c * 100) + 1 / 2\<rfloor>"
  have k: "500 \<le> k" "k \<le> 9500"
    using b unfolding k_def by (simp_all add: le_floor_iff floor_le_iff)
  have r: "Math_round (Fin (rd (c * 100))) = Fin (of_int k)"
    by (simp add: Math_round_def k_def)
  have "\<exists>y. fl (of_int k / 100) = Fin y \<and> y = rd (of_int k / 100) \<and> of_int 5 \<le> y \<and> y \<le> of_int 95"
    using k by (intro fl_between) simp_all
  then have "js_div (Fin (of_int k)) (Fin 100) = Fin (rd (of_int k / 100))"
    and "5 \<le> rd (of_int k / 100)" "rd (of_int k / 100) \<le> 95"
    by (auto simp: js_div_def)
  then show ?thesis
    by (simp add: m r round2_def k_def)
qed

lemma scaled_NaN: "js_mul (js_div a (Fin 10000)) (Fin 100) = NaN \<longleftrightarrow> a = NaN"
  by (cases a) (auto simp: js_div_def js_mul_def fl_def Let_def is_neg_def)

text \<open>The probability that the code computes from an average.\<close>

lemma prob_code:
  "(a = NaN \<longrightarrow>
      js_div (Math_round (js_mul (Math_min (Math_max (js_mul (js_div a (Fin 10000)) (Fin 100))
        (Fin 5)) (Fin 95)) (Fin 100))) (Fin 100) = NaN) \<and>
   (a \<noteq> NaN \<longrightarrow>
      (\<exists>c. clamp 5 95 (js_mul (js_div a (Fin 10000)) (Fin 100)) = Some c \<and> 5 \<le> c \<and> c \<le> 95 \<and>
           5 \<le> round2 c \<and> round2 c \<le> 95 \<and>
           js_div (Math_round (js_mul (Math_min (Math_max (js_mul (js_div a (Fin 10000)) (Fin 100))
             (Fin 5)) (Fin 95)) (Fin 100))) (Fin 100) = Fin (round2 c)))"
proof (cases "a = NaN")
  case True
  then show ?thesis
    by (simp add: js_div_def js_mul_def Math_min_def Math_max_def Math_round_def)
next
  case False
  then have "js_mul (js_div a (Fin 10000)) (Fin 100) \<noteq> NaN"
    by (simp add: scaled_NaN)
  then obtain c where c: "clamp 5 95 (js_mul (js_div a (Fin 10000)) (Fin 100)) = Some c"
    "5 \<le> c" "c \<le> 95"
    "Math_min (Math_max (js_mul (js_div a (Fin 10000)) (Fin 100)) (Fin 5)) (Fin 95) = Fin c"
    using clamp_code [of 5 95 "js_mul (js_div a (Fin 10000)) (Fin 100)"] by auto
  show ?thesis
    using False c round2_code [OF c(2,3)] by simp
qed

lemma mockProbability_average:
  "mockProbability params =
     (let prob = js_div (Math_round (js_mul (Math_min (Math_max
            (js_mul (js_div (average params) (Fin 10000)) (Fin 100)) (Fin 5)) (Fin 95))
            (Fin 100))) (Fin 100)
      in \<lparr>probability = prob, riskLevel = risk_of prob, message = message_of (risk_of prob)\<rparr>)"
  unfolding mockProbability_def Let_def code_average risk_of_def by simp

lemma mockProbability_plain_average:
  "mockProbability_plain params =
     (let prob = js_div (Math_round (js_mul (Math_min (Math_max
            (js_mul (js_div (average params) (Fin 10000)) (Fin 100)) (Fin 5)) (Fin 95))
            (Fin 100))) (Fin 100)
      in \<lparr>probability = prob, riskLevel = risk_of prob, message = message_of (risk_of prob)\<rparr>)"
  unfolding mockProbability_plain_def Let_def code_average risk_of_def by simp

lemma probability_range:
  "(average params = NaN \<longrightarrow> probability (mockProbability params) = NaN) \<and>
   (average params \<noteq> NaN \<longrightarrow>
      (\<exists>x. probability (mockProbability params) = Fin x \<and> 5 \<le> x \<and> x \<le> 95))"
  using prob_code [of "average params"] by (auto simp: mockProbability_average Let_def)

lemma plain_probability_range:
  "(average params = NaN \<longrightarrow> probability (mockProbability_plain params) = NaN) \<and>
   (average params \<noteq> NaN \<longrightarrow>
      (\<exists>x. probability (mockProbability_plain params) = Fin x \<and> 5 \<le> x \<and> x \<le> 95))"
  using prob_code [of "average params"] by (auto simp: mockProbability_plain_average Let_def)

lemma literal_04: "fl (4 / 10) = Fin (3602879701896397 / 2 ^ 53)"
  by (simp add: fl_def rd_eval)

lemma literal_098: "fl (98 / 100) = Fin (2206763817411543 / 2 ^ 51)"
  by (simp add: fl_def rd_eval)

lemma confidence_range:
  "(average params = NaN \<longrightarrow> confidence (mockPrediction params) = NaN) \<and>
   (average params \<noteq> NaN \<longrightarrow>
      (\<exists>x. confidence (mockPrediction params) = Fin x \<and> 4 / 10 \<le> x \<and> x \<le> 98 / 100))"
proof -
  let ?b = "js_add (Fin (3602879701896397 / 2 ^ 53)) (js_div (average params) (Fin 20000))"
  have c: "confidence (mockPrediction params)
      = Math_min (Math_max ?b (Fin (3602879701896397 / 2 ^ 53))) (Fin (2206763817411543 / 2 ^ 51))"
    by (simp only: mockPrediction_average literal_04 literal_098 PredictionResult.select_convs)
  have n: "?b = NaN \<longleftrightarrow> average params = NaN"
    by (cases "average params") (auto simp: js_div_def js_add_def fl_def Let_def is_neg_def)
  show ?thesis
    using clamp_code [of "3602879701896397 / 2 ^ 53" "2206763817411543 / 2 ^ 51" ?b] c n
    by auto
qed

lemma valid_ranges:
  assumes "passes_validation params"
  shows "\<exists>x y. probability (mockProbability params) = Fin x \<and> 5 \<le> x \<and> x \<le> 95 \<and>
           confidence (mockPrediction params) = Fin y \<and> 4 / 10 \<le> y \<and> y \<le> 98 / 100"
proof -
  have "average params \<noteq> NaN"
    using valid_average [OF assms] by auto
  then show ?thesis
    using probability_range [of params] confidence_range [of params] by auto
qed

section \<open>The inputs, evaluated\<close>

lemma sampleData_valid: "passes_validation sampleData"
  by (simp only: passes_validation_def Object_keys_def list.pred_inject)
    (simp add: validateParameter_def trim_def isNaN_def eval_defs)

lemma sampleData_parsed:
  "parsed_values sampleData =
     [Fin 3500, Fin 2500, Fin 45000, Fin 2800, Fin 420, Fin 250, Fin 25000, Fin 450,
      Fin 500, Fin 850, Fin 3800, Fin 50, Fin (3152519739159347 / 2 ^ 53)]"
  by (simp only: parsed_values_def Object_keys_def list.map)
    (simp add: or_zero_def eval_defs)

lemma sampleData_sum: "sum_values sampleData = Fin (2924712955792589 / 2 ^ 35)"
  by (simp add: sum_values_def sampleData_parsed js_add_def fl_def rd_eval)

lemma sampleData_average: "average sampleData = Fin (224977919676353 / 2 ^ 35)"
  by (simp add: average_def sampleData_sum js_div_def fl_def rd_eval)

lemma sampleData_classIndex: "classIndex sampleData = Fin 2"
  by (simp add: classIndex_def sampleData_average js_div_def Math_floor_def Math_min_def
      fl_def rd_eval)

lemma sampleData_prediction:
  "mockPrediction sampleData =
     \<lparr>binary_prediction = Major_Flare, final_class = Some ''M'',
      confidence = Fin (6551710290678291 / 2 ^ 53)\<rparr>"
  by (simp add: mockPrediction_average sampleData_classIndex sampleData_average js_index_def
      mockClasses_def js_add_def js_div_def Math_min_def Math_max_def fl_def rd_eval)

lemma sampleData_probability:
  "mockProbability sampleData =
     \<lparr>probability = Fin (4607745368753439 / 2 ^ 46), riskLevel = High,
      message = ''High probability of solar flare activity. Enhanced monitoring recommended.''\<rparr>"
  by (simp add: mockProbability_average sampleData_average number_defs risk_of_def fl_def rd_eval)

lemma shiftedData_valid: "passes_validation shiftedData"
  by (simp only: passes_validation_def Object_keys_def list.pred_inject)
    (simp add: shiftedData_def validateParameter_def trim_def isNaN_def eval_defs)

lemma shiftedData_parsed:
  "parsed_values shiftedData =
     [Fin 3400, Fin 2600, Fin 45000, Fin 2800, Fin 420, Fin 250, Fin 25000, Fin 450,
      Fin 500, Fin 850, Fin 3800, Fin 50, Fin (3152519739159347 / 2 ^ 53)]"
  by (simp only: parsed_values_def Object_keys_def list.map)
    (simp add: shiftedData_def or_zero_def eval_defs)

lemma shiftedData_sum: "sum_values shiftedData = sum_values sampleData"
  by (simp only: sampleData_sum)
    (simp add: sum_values_def shiftedData_parsed js_add_def fl_def rd_eval)

lemma order_X_valid: "passes_validation order_X"
  by (simp only: passes_validation_def Object_keys_def list.pred_inject)
    (simp add: order_X_def validateParameter_def trim_def isNaN_def eval_defs)

lemma order_Y_valid: "passes_validation order_Y"
  by (simp only: passes_validation_def Object_keys_def list.pred_inject)
    (simp add: order_Y_def validateParameter_def trim_def isNaN_def eval_defs)

lemma order_X_parsed:
  "parsed_values order_X =
     [Fin (2741687219440845 / 2 ^ 39), Fin (3238941353102541 / 2 ^ 40),
      Fin (3376476513841971 / 2 ^ 37), Fin 0, Fin 0, Fin 0, Fin 0, Fin 0, Fin 0, Fin 0,
      Fin 0, Fin 0, Fin 0]"
  by (simp only: parsed_values_def Object_keys_def list.map)
    (simp add: order_X_def or_zero_def eval_defs)

lemma order_Y_parsed:
  "parsed_values order_Y =
     [Fin (2741687219440845 / 2 ^ 39), Fin 0, Fin (3376476513841971 / 2 ^ 37),
      Fin (3238941353102541 / 2 ^ 40), Fin 0, Fin 0, Fin 0, Fin 0, Fin 0, Fin 0,
      Fin 0, Fin 0, Fin 0]"
  by (simp only: parsed_values_def Object_keys_def list.map)
    (simp add: order_Y_def or_zero_def eval_defs)

lemma order_X_sum: "sum_values order_X = Fin 32500"
  by (simp add: sum_values_def order_X_parsed js_add_def fl_def rd_eval)

lemma order_Y_sum: "sum_values order_Y = Fin (8933531975679999 / 2 ^ 38)"
  by (simp add: sum_values_def order_Y_parsed js_add_def fl_def rd_eval)

lemma order_X_classIndex: "classIndex order_X = Fin 1"
  by (simp add: classIndex_def average_def order_X_sum js_div_def Math_floor_def Math_min_def
      fl_def rd_eval)

lemma order_Y_classIndex: "classIndex order_Y = Fin 0"
  by (simp add: classIndex_def average_def order_Y_sum js_div_def Math_floor_def Math_min_def
      fl_def rd_eval)

lemma order_exact_sum: "exact_sum order_X = exact_sum order_Y"
  by (simp add: exact_sum_def order_X_parsed order_Y_parsed number_value_def)

lemma boundary_valid: "passes_validation boundary_data"
  by (simp only: passes_validation_def Object_keys_def list.pred_inject)
    (simp add: boundary_data_def validateParameter_def trim_def isNaN_def eval_defs)

lemma boundary_parsed:
  "parsed_values boundary_data =
     [Fin 0, Fin (6699104445713613 / 2 ^ 46), Fin (8817519755054285 / 2 ^ 37),
      Fin (3028934632197325 / 2 ^ 42), Fin 0, Fin 0, Fin 0, Fin 0, Fin 0, Fin 0,
      Fin (4236198399495373 / 2 ^ 46), Fin 0, Fin 0]"
  by (simp only: parsed_values_def Object_keys_def list.map)
    (simp add: boundary_data_def or_zero_def eval_defs)

lemma boundary_average: "average boundary_data = Fin (5497558138879999 / 2 ^ 40)"
  by (simp add: average_def sum_values_def boundary_parsed js_add_def js_div_def fl_def rd_eval)

lemma boundary_classIndex: "classIndex boundary_data = Fin 1"
  by (simp add: classIndex_def boundary_average js_div_def Math_floor_def Math_min_def
      fl_def rd_eval)

lemma boundary_exact_average:
  "exact_average boundary_data = 2286984185774080053 / 457396837154816"
  by (simp add: exact_average_def exact_sum_def boundary_parsed number_value_def)

lemma below_half_valid: "passes_validation below_half_data"
  by (simp only: passes_validation_def Object_keys_def list.pred_inject)
    (simp add: below_half_data_def validateParameter_def trim_def isNaN_def eval_defs)

lemma below_half_parsed:
  "parsed_values below_half_data =
     [Fin 0, Fin 0, Fin (7153972406124543 / 2 ^ 40), Fin 0, Fin 0, Fin 0, Fin 0, Fin 0, Fin 0,
      Fin 0, Fin 0, Fin 0, Fin 0]"
  by (simp only: parsed_values_def Object_keys_def list.map)
    (simp add: below_half_data_def or_zero_def eval_defs)

lemma below_half_average: "average below_half_data = Fin (8804889115230207 / 2 ^ 44)"
  by (simp add: average_def sum_values_def below_half_parsed js_add_def js_div_def fl_def rd_eval)

lemma below_half_probability:
  "mockProbability below_half_data =
     \<lparr>probability = Fin (2820379266640773 / 2 ^ 49), riskLevel = Low,
      message = ''Low probability of solar flare activity. Conditions appear stable.''\<rparr>"
  by (simp add: mockProbability_average below_half_average number_defs risk_of_def fl_def rd_eval)

lemma below_half_exact:
  "exact_round2 (if exact_average below_half_data / 10000 * 100 < 5 then 5
        else if 95 < exact_average below_half_data / 10000 * 100 then 95
        else exact_average below_half_data / 10000 * 100) = 5"
  by (simp add: exact_round2_def exact_average_def exact_sum_def below_half_parsed
      number_value_def)

lemma lone_parsed:
  "parsed_values lone_number =
     [Fin 0, Fin 0, Fin 65000, Fin 0, Fin 0, Fin 0, Fin 0, Fin 0, Fin 0, Fin 0, Fin 0, Fin 0,
      Fin 0]"
  "parsed_values lone_number_words = parsed_values lone_number"
  by (simp_all only: parsed_values_def Object_keys_def list.map)
    (simp_all add: lone_number_def lone_number_words_def emptyParameters_def or_zero_def
      eval_defs)

lemma lone_average: "average lone_number = Fin 5000" "average lone_number_words = Fin 5000"
  by (simp_all add: average_def sum_values_def lone_parsed js_add_def js_div_def fl_def rd_eval)

lemma sampleData_plain_parsed:
  "parsed_values sampleData_plain =
     [Fin (7001 / 2), Fin 125000, Fin (34001 / 4), Fin 28000, Fin 4200, Fin 15000,
      Fin 24999999999999997902848, Fin 450, Fin 12000000000000000000000, Fin 850,
      Fin 3800000000000000150994944, Fin (1080863910568919 / 2 ^ 56),
      Fin (3152519739159347 / 2 ^ 53)]"
  by (simp only: parsed_values_def Object_keys_def list.map)
    (simp add: or_zero_def eval_defs)

lemma sampleData_plain_average: "average sampleData_plain = Fin 295153846153846145941504"
  by (simp add: average_def sum_values_def sampleData_plain_parsed js_add_def js_div_def
      fl_def rd_eval)

lemma sampleData_plain_probability:
  "mockProbability_plain sampleData_plain =
     \<lparr>probability = Fin 95, riskLevel = High,
      message = ''High probability of solar flare activity. Enhanced monitoring recommended.''\<rparr>"
  by (simp add: mockProbability_plain_average sampleData_plain_average number_defs risk_of_def
      fl_def rd_eval)

lemma rejected_TOTUSJH:
  "validateParameter TOTUSJH (js ''-5'') = Some (Value_must_be_between (Fin 0) (Fin 10000))"
  by (simp add: validateParameter_def trim_def isNaN_def eval_defs)

lemma rejected_EPSZ: "validateParameter EPSZ (js ''abc'') = Some Invalid_number"
  by (simp add: validateParameter_def trim_def isNaN_def eval_defs)

lemma rejected_errors:
  "(\<lambda>k. validateParameter k (parameters rejected_state k))
     = [TOTUSJH \<mapsto> Value_must_be_between (Fin 0) (Fin 10000), EPSZ \<mapsto> Invalid_number]"
proof
  fix k
  have "validateParameter k (sampleData k) = None"
    using sampleData_valid by (simp add: passes_validation_iff)
  then show "validateParameter k (parameters rejected_state k)
      = [TOTUSJH \<mapsto> Value_must_be_between (Fin 0) (Fin 10000), EPSZ \<mapsto> Invalid_number] k"
    by (simp add: rejected_state_def initial_state_def rejected_TOTUSJH rejected_EPSZ)
qed

section \<open>Properties of \<open>validateParameter\<close>\<close>

text \<open>
  C4. For every field and every string, \<open>validateParameter\<close> returns \<open>None\<close> when the
  string is empty or white space only; \<open>Invalid_number\<close> when the string is not blank
  and \<open>parseFloat\<close> gives \<open>NaN\<close>; the range message exactly when the string is not
  blank, parses to a number, and that number is strictly below the field's minimum or
  strictly above its maximum; and \<open>None\<close> in the remaining case.
\<close>

theorem validateParameter_cases:
  "(list_all is_ws v \<longrightarrow> validateParameter key v = None) \<and>
   (\<not> list_all is_ws v \<and> parseFloat v = NaN \<longrightarrow> validateParameter key v = Some Invalid_number) \<and>
   (validateParameter key v =
      Some (Value_must_be_between (info_min (parameterInfo key)) (info_max (parameterInfo key)))
    \<longleftrightarrow> \<not> list_all is_ws v \<and> parseFloat v \<noteq> NaN \<and>
        (js_lt (parseFloat v) (info_min (parameterInfo key)) \<or>
         js_gt (parseFloat v) (info_max (parameterInfo key)))) \<and>
   (\<not> list_all is_ws v \<and> parseFloat v \<noteq> NaN \<and>
      \<not> js_lt (parseFloat v) (info_min (parameterInfo key)) \<and>
      \<not> js_gt (parseFloat v) (info_max (parameterInfo key)) \<longrightarrow> validateParameter key v = None)"
  by (simp add: validateParameter_def trim_Nil_iff isNaN_def Let_def)

theorem validateParameter_cases_witness:
  "list_all is_ws (js ''  '') \<and> validateParameter TOTUSJH (js ''  '') = None \<and>
   \<not> list_all is_ws (js ''abc'') \<and> parseFloat (js ''abc'') = NaN \<and>
   validateParameter TOTUSJH (js ''abc'') = Some Invalid_number \<and>
   parseFloat (js ''10000.5'') = Fin (100005 / 10) \<and>
   validateParameter TOTUSJH (js ''10000.5'') = Some (Value_must_be_between (Fin 0) (Fin 10000)) \<and>
   parseFloat (js ''-1'') = Fin (- 1) \<and>
   validateParameter TOTUSJH (js ''-1'') = Some (Value_must_be_between (Fin 0) (Fin 10000)) \<and>
   parseFloat (js ''10000'') = Fin 10000 \<and>
   validateParameter TOTUSJH (js ''10000'') = None"
  using validateParameter_cases [of "js ''  ''" TOTUSJH]
    validateParameter_cases [of "js ''abc''" TOTUSJH]
    validateParameter_cases [of "js ''10000.5''" TOTUSJH]
    validateParameter_cases [of "js ''-1''" TOTUSJH]
    validateParameter_cases [of "js ''10000''" TOTUSJH]
  by (simp add: eval_defs)

section \<open>The two probability variants\<close>

text \<open>
  C7. For every assignment of the thirteen parameter strings, the prediction formula of
  the probability variant with validation and the one of the variant without compute the
  same probability, risk level and message.
\<close>

theorem variants_agree: "mockProbability params = mockProbability_plain params"
  by (simp add: mockProbability_def mockProbability_plain_def)

section \<open>Validation before the prediction\<close>

text \<open>
  C5, as the code has it. In the classification variant and in the probability variant
  with validation, every submission validates each of the thirteen fields before a
  prediction is computed: if \<open>validateParameter\<close> rejects a field, \<open>handleSubmit\<close> sets
  \<open>errors\<close> to the message of each field and returns, with \<open>result\<close> and
  \<open>parameters\<close> unchanged; and a submission that changes \<open>result\<close> or \<open>isLoading\<close>
  has passed validation. The probability variant without validation computes a
  prediction at every submission.
\<close>

theorem validation_gates_prediction:
  "(validateParameter key (parameters s key) \<noteq> None \<longrightarrow>
      handleSubmit s = s\<lparr>errors := (\<lambda>k. validateParameter k (parameters s k))\<rparr> \<and>
      errors (handleSubmit s) key = validateParameter key (parameters s key) \<and>
      result (handleSubmit s) = result s \<and>
      parameters (handleSubmit s) = parameters s) \<and>
   (validateParameter key' (parameters u key') \<noteq> None \<longrightarrow>
      handleSubmit_prob u = u\<lparr>errors := (\<lambda>k. validateParameter k (parameters u k))\<rparr> \<and>
      errors (handleSubmit_prob u) key' = validateParameter key' (parameters u key') \<and>
      result (handleSubmit_prob u) = result u \<and>
      parameters (handleSubmit_prob u) = parameters u) \<and>
   (result (handleSubmit s) \<noteq> result s \<or> isLoading (handleSubmit s) \<noteq> isLoading s
      \<longrightarrow> passes_validation (parameters s)) \<and>
   (result (handleSubmit_prob u) \<noteq> result u \<or> isLoading (handleSubmit_prob u) \<noteq> isLoading u
      \<longrightarrow> passes_validation (parameters u)) \<and>
   plain_result (handleSubmit_plain t) = Some (mockProbability_plain (plain_parameters t))"
  by (auto simp: handleSubmit_eq handleSubmit_prob_eq handleSubmit_plain_def
      passes_validation_iff)

theorem validation_gates_prediction_witness:
  "validateParameter TOTUSJH (parameters (rejected_state :: PredictionResult form_state) TOTUSJH)
     \<noteq> None \<and>
   handleSubmit rejected_state =
     rejected_state\<lparr>errors := [TOTUSJH \<mapsto> Value_must_be_between (Fin 0) (Fin 10000),
                               EPSZ \<mapsto> Invalid_number]\<rparr> \<and>
   validateParameter EPSZ (parameters (rejected_state :: ProbabilityResult form_state) EPSZ)
     \<noteq> None \<and>
   handleSubmit_prob rejected_state =
     rejected_state\<lparr>errors := [TOTUSJH \<mapsto> Value_must_be_between (Fin 0) (Fin 10000),
                               EPSZ \<mapsto> Invalid_number]\<rparr> \<and>
   result (handleSubmit (fillSampleData initial_state)) \<noteq> result (fillSampleData initial_state) \<and>
   passes_validation (parameters (fillSampleData initial_state :: PredictionResult form_state))"
proof -
  let ?s = "rejected_state :: PredictionResult form_state"
  let ?u = "rejected_state :: ProbabilityResult form_state"
  let ?f = "fillSampleData initial_state :: PredictionResult form_state"
  note g = validation_gates_prediction [of TOTUSJH ?s EPSZ ?u unvalidated_state]
  have t: "validateParameter TOTUSJH (parameters ?s TOTUSJH) \<noteq> None"
    and e: "validateParameter EPSZ (parameters ?u EPSZ) \<noteq> None"
    by (simp_all add: rejected_state_def initial_state_def rejected_TOTUSJH rejected_EPSZ)
  have h1: "handleSubmit ?s = ?s\<lparr>errors := (\<lambda>k. validateParameter k (parameters ?s k))\<rparr>"
    using g t by blast
  have h2: "handleSubmit_prob ?u = ?u\<lparr>errors := (\<lambda>k. validateParameter k (parameters ?u k))\<rparr>"
    using g e by blast
  have c: "result (handleSubmit ?f) \<noteq> result ?f"
    by (simp add: handleSubmit_eq fillSampleData_def sampleData_valid)
  have v: "passes_validation (parameters ?f)"
    using validation_gates_prediction [of TOTUSJH ?f EPSZ ?u unvalidated_state] c by blast
  show ?thesis
    using t e c v h1 h2 unfolding rejected_errors by (intro conjI)
qed

text \<open>
  C5 as first stated, for every submission of every variant, fails in the variant
  without validation: with \<^verbatim>\<open>-5\<close> in the field TOTUSJH, which \<open>validateParameter\<close>
  rejects, its \<open>handleSubmit\<close> replaces the empty result by a prediction.
\<close>

theorem unvalidated_variant_counterexample:
  "validateParameter TOTUSJH (plain_parameters unvalidated_state TOTUSJH)
     = Some (Value_must_be_between (Fin 0) (Fin 10000)) \<and>
   plain_result unvalidated_state = None \<and>
   plain_result (handleSubmit_plain unvalidated_state)
     = Some \<lparr>probability = Fin 5, riskLevel = Low, message = message_of Low\<rparr>"
proof (intro conjI)
  show "validateParameter TOTUSJH (plain_parameters unvalidated_state TOTUSJH)
      = Some (Value_must_be_between (Fin 0) (Fin 10000))"
    by (simp add: unvalidated_state_def initial_plain_state_def rejected_TOTUSJH)
  show "plain_result unvalidated_state = None"
    by (simp add: unvalidated_state_def initial_plain_state_def)
  show "plain_result (handleSubmit_plain unvalidated_state)
      = Some \<lparr>probability = Fin 5, riskLevel = Low, message = message_of Low\<rparr>"
    by (simp add: unvalidated_state_def initial_plain_state_def
        handleSubmit_plain_def mockProbability_plain_average average_def sum_values_def
        parsed_values_def Object_keys_def number_defs risk_of_def eval_defs)
qed

section \<open>The range of the probability\<close>

text \<open>
  C9 says that for every assignment of the thirteen strings the probability lies between
  5 and 95 and the confidence between 0.4 and 0.98. The variant without validation
  breaks it: with \<^verbatim>\<open>Infinity\<close> in one field and \<^verbatim>\<open>-Infinity\<close> in another the sum, and so
  the average, is \<^verbatim>\<open>NaN\<close>, which \<^verbatim>\<open>Math.max\<close> and \<^verbatim>\<open>Math.min\<close> return unchanged; the
  reported probability is \<^verbatim>\<open>NaN\<close> and the risk level is \<open>High\<close>. (By
  \<open>plain_probability_range\<close>, \<open>probability_range\<close> and \<open>confidence_range\<close> a
  \<^verbatim>\<open>NaN\<close> average is the only way out of the two intervals, and by \<open>valid_ranges\<close> it
  cannot happen after validation.)
\<close>

theorem probability_not_a_number:
  "average (plain_parameters infinite_state) = NaN \<and>
   plain_result (handleSubmit_plain infinite_state)
     = Some \<lparr>probability = NaN, riskLevel = High,
             message = ''High probability of solar flare activity. Enhanced monitoring recommended.''\<rparr>"
proof -
  have "parsed_values (plain_parameters infinite_state)
      = [PosInfinity, NegInfinity, Fin 0, Fin 0, Fin 0, Fin 0, Fin 0, Fin 0, Fin 0, Fin 0,
         Fin 0, Fin 0, Fin 0]"
    by (simp add: infinite_state_def initial_plain_state_def parsed_values_def Object_keys_def
        or_zero_def eval_defs)
  then have "average (plain_parameters infinite_state) = NaN"
    by (simp add: average_def sum_values_def js_add_def js_div_def)
  then show ?thesis
    by (simp add: handleSubmit_plain_def mockProbability_plain_average number_defs risk_of_def)
qed

section \<open>The result depends on the sum as the code computes it\<close>

text \<open>
  C1, as the code has it. Take two assignments of the thirteen strings that both pass
  validation and for which the code computes the same sum: the binary64 additions of
  the parsed values from left to right, starting at 0. Then, in the classification
  variant and in the probability variant with validation, submitting either one sets a
  result, and the two results are the same: the same \<open>final_class\<close>,
  \<open>binary_prediction\<close> and \<open>confidence\<close>, and the same \<open>probability\<close>, \<open>riskLevel\<close>
  and \<open>message\<close>.
\<close>

theorem same_sum_same_result:
  assumes "passes_validation p" and "passes_validation q"
    and "sum_values p = sum_values q"
  shows "result (handleSubmit (s\<lparr>parameters := p\<rparr>)) = Some (mockPrediction p) \<and>
         result (handleSubmit (s'\<lparr>parameters := q\<rparr>)) = Some (mockPrediction q) \<and>
         mockPrediction p = mockPrediction q \<and>
         result (handleSubmit_prob (u\<lparr>parameters := p\<rparr>)) = Some (mockProbability p) \<and>
         result (handleSubmit_prob (u'\<lparr>parameters := q\<rparr>)) = Some (mockProbability q) \<and>
         mockProbability p = mockProbability q"
proof -
  have "average p = average q"
    using assms(3) by (simp add: average_def)
  then have "mockPrediction p = mockPrediction q" "mockProbability p = mockProbability q"
    by (simp_all add: mockPrediction_average mockProbability_average classIndex_def)
  then show ?thesis
    using assms(1,2) by (simp add: handleSubmit_eq handleSubmit_prob_eq)
qed

theorem same_sum_same_result_witness:
  "passes_validation sampleData \<and> passes_validation shiftedData \<and>
   sum_values sampleData = sum_values shiftedData \<and> sampleData TOTUSJH \<noteq> shiftedData TOTUSJH \<and>
   result (handleSubmit (initial_state\<lparr>parameters := sampleData\<rparr>))
     = result (handleSubmit (initial_state\<lparr>parameters := shiftedData\<rparr>)) \<and>
   result (handleSubmit_prob (initial_state\<lparr>parameters := sampleData\<rparr>))
     = result (handleSubmit_prob (initial_state\<lparr>parameters := shiftedData\<rparr>))"
  using same_sum_same_result [OF sampleData_valid shiftedData_valid shiftedData_sum [symmetric],
      of initial_state initial_state initial_state initial_state]
    sampleData_valid shiftedData_valid shiftedData_sum
  by (simp add: shiftedData_def js_def)

text \<open>
  C1 as first stated speaks of the sum of the thirteen parsed values. The assignments
  \<open>order_X\<close> and \<open>order_Y\<close> pass validation and hold the same thirteen values, in
  another order: their sums are equal. The code adds them from left to right in
  binary64 and gets 32500 for the first and a smaller number for the second; the first
  submission gives class C, the second class B.
\<close>

theorem order_changes_class:
  "passes_validation order_X \<and> passes_validation order_Y \<and>
   exact_sum order_X = exact_sum order_Y \<and>
   map_option final_class (result (handleSubmit (initial_state\<lparr>parameters := order_X\<rparr>)))
     = Some (Some ''C'') \<and>
   map_option final_class (result (handleSubmit (initial_state\<lparr>parameters := order_Y\<rparr>)))
     = Some (Some ''B'')"
  by (simp add: order_X_valid order_Y_valid order_exact_sum handleSubmit_eq
      mockPrediction_average order_X_classIndex order_Y_classIndex js_index_def mockClasses_def)

section \<open>The class of a valid submission\<close>

text \<open>
  C2, as the code has it. After a submission that passes validation in the
  classification variant, the average that the code computes (the binary64 sum from left
  to right, divided by 13 in binary64) is a finite number \<open>a \<ge> 0\<close>; \<open>final_class\<close> is
  the element of \<open>[B, C, M, X, B/C]\<close> at index \<open>min \<lfloor>q\<rfloor> 4\<close>, where \<open>q\<close> is the
  binary64 quotient of \<open>a\<close> by 2500; and \<open>binary_prediction\<close> is \<open>Major_Flare\<close> exactly
  when \<open>final_class\<close> is M or X, \<open>No_Major_Flare\<close> otherwise.
\<close>

theorem final_class_formula:
  assumes "passes_validation (parameters s)"
  shows "\<exists>r a. result (handleSubmit s) = Some r \<and> average (parameters s) = Fin a \<and> 0 \<le> a \<and>
           final_class r = Some (mockClasses ! nat (min \<lfloor>rd (a / 2500)\<rfloor> 4)) \<and>
           (binary_prediction r = Major_Flare \<longleftrightarrow>
              final_class r = Some ''M'' \<or> final_class r = Some ''X'') \<and>
           (binary_prediction r = No_Major_Flare \<longleftrightarrow>
              \<not> (final_class r = Some ''M'' \<or> final_class r = Some ''X''))"
proof -
  let ?p = "parameters s"
  obtain a where a: "average ?p = Fin a" "0 \<le> a"
    and ci: "classIndex ?p = Fin (of_int (min \<lfloor>rd (a / 2500)\<rfloor> 4))"
    and nn: "0 \<le> \<lfloor>rd (a / 2500)\<rfloor>"
    using valid_classIndex [OF assms] by blast
  have fc: "js_index mockClasses (classIndex ?p)
      = Some (mockClasses ! nat (min \<lfloor>rd (a / 2500)\<rfloor> 4))"
    unfolding ci using nn by (intro js_index_int) (simp_all add: mockClasses_def)
  have r: "result (handleSubmit s) = Some (mockPrediction ?p)"
    using assms by (simp add: handleSubmit_eq)
  show ?thesis
    using a fc r by (simp add: mockPrediction_average)
qed

theorem final_class_formula_witness:
  "passes_validation (parameters (fillSampleData initial_state :: PredictionResult form_state)) \<and>
   average (parameters (fillSampleData initial_state :: PredictionResult form_state))
     = Fin (224977919676353 / 2 ^ 35) \<and>
   mockClasses ! nat (min \<lfloor>rd (224977919676353 / 2 ^ 35 / 2500)\<rfloor> 4) = ''M'' \<and>
   result (handleSubmit (fillSampleData initial_state)) =
     Some \<lparr>binary_prediction = Major_Flare, final_class = Some ''M'',
            confidence = Fin (6551710290678291 / 2 ^ 53)\<rparr>"
proof -
  have p: "parameters (fillSampleData initial_state) = sampleData"
    by (simp add: fillSampleData_def)
  have v: "passes_validation (parameters (fillSampleData initial_state))"
    by (simp add: p sampleData_valid)
  have m: "mockClasses ! nat (min \<lfloor>rd (224977919676353 / 2 ^ 35 / 2500)\<rfloor> 4) = ''M''"
    by (simp add: mockClasses_def rd_eval)
  show ?thesis
    using final_class_formula [OF v] v m
    by (simp add: p handleSubmit_eq sampleData_prediction sampleData_average)
qed

text \<open>
  C2 as first stated takes the index from the sum of the thirteen parsed values divided
  by 13. In \<open>boundary_data\<close>, which passes validation, that average is above 5000, so
  the stated index is 2 and the stated class is M, a major flare. The code's binary64
  sum and average fall just below 5000: it reports class C and no major flare.
\<close>

theorem exact_average_counterexample:
  "passes_validation boundary_data \<and>
   5000 < exact_average boundary_data \<and>
   mockClasses ! nat (min \<lfloor>exact_average boundary_data / 2500\<rfloor> 4) = ''M'' \<and>
   result (handleSubmit (initial_state\<lparr>parameters := boundary_data\<rparr>))
     = Some (mockPrediction boundary_data) \<and>
   final_class (mockPrediction boundary_data) = Some ''C'' \<and>
   binary_prediction (mockPrediction boundary_data) = No_Major_Flare"
  by (simp add: boundary_valid boundary_exact_average handleSubmit_eq mockPrediction_average
      boundary_classIndex js_index_def mockClasses_def)

text \<open>
  C8. When every field passes validation, the class index is a natural number at most
  4, so the read from the five-element array is in bounds, and \<open>final_class\<close> is one
  of B, C, M, X and B/C.
\<close>

theorem class_index_in_bounds:
  assumes "passes_validation params"
  shows "\<exists>i::nat. classIndex params = Fin (real i) \<and> i \<le> 4 \<and> i < length mockClasses \<and>
           final_class (mockPrediction params) = Some (mockClasses ! i) \<and>
           final_class (mockPrediction params)
             \<in> {Some ''B'', Some ''C'', Some ''M'', Some ''X'', Some ''B/C''}"
proof -
  obtain q :: real where ci: "classIndex params = Fin (of_int (min \<lfloor>q\<rfloor> 4))"
    and nn: "0 \<le> \<lfloor>q\<rfloor>"
    using valid_classIndex [OF assms] by blast
  define i where "i = nat (min \<lfloor>q\<rfloor> 4)"
  have i: "int i = min \<lfloor>q\<rfloor> 4" "i \<le> 4"
    using nn by (simp_all add: i_def)
  have ci': "classIndex params = Fin (real i)"
    using ci i(1) by (metis of_int_of_nat_eq)
  have fc: "js_index mockClasses (classIndex params) = Some (mockClasses ! i)"
    unfolding ci using nn i_def by (simp add: js_index_int mockClasses_def)
  have "mockClasses ! i \<in> {''B'', ''C'', ''M'', ''X'', ''B/C''}"
  proof -
    from i(2) have "i = 0 \<or> i = 1 \<or> i = 2 \<or> i = 3 \<or> i = 4" by arith
    then show ?thesis by (auto simp: mockClasses_def)
  qed
  then show ?thesis
    using ci' fc i(2) by (intro exI [of _ i]) (auto simp: mockPrediction_average mockClasses_def)
qed

theorem class_index_in_bounds_witness:
  "passes_validation sampleData \<and> classIndex sampleData = Fin (real (2::nat)) \<and>
   final_class (mockPrediction sampleData) = Some (mockClasses ! 2)"
  using class_index_in_bounds [OF sampleData_valid] sampleData_valid
  by (simp add: sampleData_prediction mockClasses_def sampleData_classIndex)

section \<open>The probability of a submission\<close>

text \<open>
  C3, as the code has it. Let \<open>r\<close> be the result after a submission of the parameters
  \<open>params\<close> in one of the two probability variants (in the variant with validation, a
  submission that passes it), and let the average that the code computes be a number,
  not \<^verbatim>\<open>NaN\<close>. Then \<open>(average / 10000) * 100\<close>, computed in binary64 and clamped to the
  interval from 5 to 95, is a value \<open>c\<close>, and \<open>probability r\<close> is \<open>round2 c\<close>: the
  binary64 quotient by 100 of the integer nearest to the binary64 product of \<open>c\<close> and
  100, a tie going up. It lies between 5 and 95. \<open>riskLevel r\<close> is \<open>Low\<close> exactly when
  the probability is below 30, \<open>Medium\<close> exactly when it is at least 30 and below 60,
  and \<open>High\<close> otherwise; and the message is the one that goes with the risk level.
\<close>

theorem probability_formula:
  assumes "passes_validation (parameters s) \<and> result (handleSubmit_prob s) = Some r
             \<and> params = parameters s
           \<or> plain_result (handleSubmit_plain t) = Some r \<and> params = plain_parameters t"
    and "average params \<noteq> NaN"
  shows "\<exists>c. clamp 5 95 (js_mul (js_div (average params) (Fin 10000)) (Fin 100)) = Some c \<and>
           probability r = Fin (round2 c) \<and> 5 \<le> round2 c \<and> round2 c \<le> 95 \<and>
           (riskLevel r = Low \<longleftrightarrow> round2 c < 30) \<and>
           (riskLevel r = Medium \<longleftrightarrow> 30 \<le> round2 c \<and> round2 c < 60) \<and>
           (riskLevel r = High \<longleftrightarrow> 60 \<le> round2 c) \<and>
           message r = message_of (riskLevel r)"
proof -
  have r: "r = mockProbability params"
    using assms(1)
    by (auto simp: handleSubmit_prob_eq handleSubmit_plain_def mockProbability_average
        mockProbability_plain_average)
  obtain c where c: "clamp 5 95 (js_mul (js_div (average params) (Fin 10000)) (Fin 100)) = Some c"
    "5 \<le> round2 c" "round2 c \<le> 95"
    "js_div (Math_round (js_mul (Math_min (Math_max
        (js_mul (js_div (average params) (Fin 10000)) (Fin 100)) (Fin 5)) (Fin 95))
        (Fin 100))) (Fin 100) = Fin (round2 c)"
    using prob_code [of "average params"] assms(2) by blast
  have p: "probability r = Fin (round2 c)"
    and l: "riskLevel r = risk_of (Fin (round2 c))"
    and m: "message r = message_of (riskLevel r)"
    by (simp_all add: r mockProbability_average c(4) Let_def)
  show ?thesis
    using c(1,2,3) p m unfolding l by (intro exI [of _ c]) (auto simp: risk_of_def)
qed

theorem probability_formula_witness:
  "passes_validation (parameters (fillSampleData initial_state :: ProbabilityResult form_state)) \<and>
   average sampleData \<noteq> NaN \<and>
   result (handleSubmit_prob (fillSampleData initial_state)) =
     Some \<lparr>probability = Fin (4607745368753439 / 2 ^ 46), riskLevel = High,
            message = message_of High\<rparr> \<and>
   clamp 5 95 (js_mul (js_div (average sampleData) (Fin 10000)) (Fin 100))
     = Some (4607547794971709 / 2 ^ 46) \<and>
   round2 (4607547794971709 / 2 ^ 46) = 4607745368753439 / 2 ^ 46 \<and>
   average sampleData_plain \<noteq> NaN \<and>
   plain_result (handleSubmit_plain (fillSampleData_plain initial_plain_state)) =
     Some \<lparr>probability = Fin 95, riskLevel = High, message = message_of High\<rparr> \<and>
   clamp 5 95 (js_mul (js_div (average sampleData_plain) (Fin 10000)) (Fin 100)) = Some 95 \<and>
   round2 95 = 95"
proof -
  let ?s = "fillSampleData initial_state :: ProbabilityResult form_state"
  let ?t = "fillSampleData_plain initial_plain_state"
  let ?r = "\<lparr>probability = Fin (4607745368753439 / 2 ^ 46), riskLevel = High,
             message = message_of High\<rparr>"
  let ?q = "\<lparr>probability = Fin 95, riskLevel = High, message = message_of High\<rparr>"
  have p: "parameters ?s = sampleData" "plain_parameters ?t = sampleData_plain"
    by (simp_all add: fillSampleData_def fillSampleData_plain_def)
  have v: "passes_validation (parameters ?s)"
    by (simp add: p sampleData_valid)
  have n: "average sampleData \<noteq> NaN" "average sampleData_plain \<noteq> NaN"
    by (simp_all add: sampleData_average sampleData_plain_average)
  have r: "result (handleSubmit_prob ?s) = Some ?r"
    by (simp add: handleSubmit_prob_eq p sampleData_valid sampleData_probability)
  have q: "plain_result (handleSubmit_plain ?t) = Some ?q"
    by (simp add: handleSubmit_plain_def p sampleData_plain_probability)
  have c1: "clamp 5 95 (js_mul (js_div (average sampleData) (Fin 10000)) (Fin 100))
      = Some (4607547794971709 / 2 ^ 46)"
    by (simp add: sampleData_average js_div_def js_mul_def clamp_def fl_def rd_eval)
  have c2: "clamp 5 95 (js_mul (js_div (average sampleData_plain) (Fin 10000)) (Fin 100))
      = Some 95"
    by (simp add: sampleData_plain_average js_div_def js_mul_def clamp_def fl_def rd_eval)
  have h1: "passes_validation (parameters ?s) \<and> result (handleSubmit_prob ?s) = Some ?r
        \<and> sampleData = parameters ?s
      \<or> plain_result (handleSubmit_plain ?t) = Some ?r \<and> sampleData = plain_parameters ?t"
    by (intro disjI1 conjI v r p(1) [symmetric])
  obtain c where c: "clamp 5 95 (js_mul (js_div (average sampleData) (Fin 10000)) (Fin 100)) = Some c"
    "probability ?r = Fin (round2 c)"
    using probability_formula [OF h1 n(1)] by (elim exE conjE)
  have "c = 4607547794971709 / 2 ^ 46"
    using c(1) [unfolded c1] by (simp only: option.inject)
  then have a1: "round2 (4607547794971709 / 2 ^ 46) = 4607745368753439 / 2 ^ 46"
    using c(2) by (simp only: ProbabilityResult.select_convs number.inject)
  have h2: "passes_validation (parameters ?s) \<and> result (handleSubmit_prob ?s) = Some ?q
        \<and> sampleData_plain = parameters ?s
      \<or> plain_result (handleSubmit_plain ?t) = Some ?q \<and> sampleData_plain = plain_parameters ?t"
    by (intro disjI2 conjI q p(2) [symmetric])
  obtain d where d: "clamp 5 95 (js_mul (js_div (average sampleData_plain) (Fin 10000)) (Fin 100)) = Some d"
    "probability ?q = Fin (round2 d)"
    using probability_formula [OF h2 n(2)] by (elim exE conjE)
  have "d = 95"
    using d(1) [unfolded c2] by (simp only: option.inject)
  then have a2: "round2 95 = 95"
    using d(2) by (simp only: ProbabilityResult.select_convs number.inject)
  show ?thesis
    by (intro conjI v n r c1 a1 q c2 a2)
qed

text \<open>
  C3 as first stated rounds the clamped value to two decimal places. In
  \<open>below_half_data\<close>, which passes validation, the average divided by 100 is below
  5.005, so that its rounding to two decimal places is 5. The code reports the binary64
  number nearest to 5.01: the product by 100 that it rounds is a binary64 number above
  500.5.
\<close>

theorem two_decimals_counterexample:
  "passes_validation below_half_data \<and>
   exact_average below_half_data / 10000 * 100 < 5005 / 1000 \<and>
   map_option exact_round2 (clamp 5 95 (Fin (exact_average below_half_data / 10000 * 100)))
     = Some 5 \<and>
   result (handleSubmit_prob (initial_state\<lparr>parameters := below_half_data\<rparr>))
     = Some (mockProbability below_half_data) \<and>
   probability (mockProbability below_half_data) = Fin (rd (501 / 100)) \<and>
   5009 / 1000 < rd (501 / 100)"
proof -
  have e: "exact_average below_half_data = 7153972406124543 / 14293651161088"
    by (simp add: exact_average_def exact_sum_def below_half_parsed number_value_def)
  have d: "rd (501 / 100) = 2820379266640773 / 2 ^ 49"
    by (simp add: rd_eval)
  show ?thesis
    unfolding e d
    by (simp add: below_half_valid handleSubmit_prob_eq below_half_probability clamp_def
        exact_round2_def)
qed

section \<open>Empty and unreadable fields\<close>

text \<open>
  C10. At prediction time a string that is empty, or that \<open>parseFloat\<close> does not read
  as a number, counts as 0: in each of the three variants, the prediction computed from
  parameters with such a string in a field is the prediction computed from the same
  parameters with \<^verbatim>\<open>0\<close> in that field. Validation accepts the empty string for every
  field; so the form with all fields empty passes validation, each of its thirteen
  values is 0, their sum and their average are 0, and \<open>handleSubmit\<close> sets a result
  and no error: class \<^verbatim>\<open>B\<close>, no major flare and confidence \<^verbatim>\<open>0.4\<close> in the classification
  variant, probability 5 and a low risk in the two probability variants. With
  \<^verbatim>\<open>65000\<close> in one field, and the other twelve fields empty or holding a word, the
  average is 5000: class \<^verbatim>\<open>M\<close>, a major flare, and probability 50 with a medium risk.
\<close>

theorem empty_contributes_zero:
  "(v = [] \<or> parseFloat v = NaN \<longrightarrow>
      or_zero (parseFloat v) = Fin 0 \<and>
      parsed_values (p(key := v)) = parsed_values (p(key := js ''0'')) \<and>
      mockPrediction (p(key := v)) = mockPrediction (p(key := js ''0'')) \<and>
      mockProbability (p(key := v)) = mockProbability (p(key := js ''0'')) \<and>
      mockProbability_plain (p(key := v)) = mockProbability_plain (p(key := js ''0''))) \<and>
   validateParameter key [] = None \<and>
   passes_validation emptyParameters \<and>
   parsed_values emptyParameters = replicate 13 (Fin 0) \<and>
   sum_values emptyParameters = Fin 0 \<and>
   average emptyParameters = Fin 0 \<and>
   result (handleSubmit initial_state) = Some (mockPrediction emptyParameters) \<and>
   result (handleSubmit_prob initial_state) = Some (mockProbability emptyParameters) \<and>
   plain_result (handleSubmit_plain initial_plain_state)
     = Some (mockProbability_plain emptyParameters) \<and>
   mockPrediction emptyParameters =
     \<lparr>binary_prediction = No_Major_Flare, final_class = Some ''B'',
      confidence = Fin (3602879701896397 / 2 ^ 53)\<rparr> \<and>
   mockProbability emptyParameters =
     \<lparr>probability = Fin 5, riskLevel = Low, message = message_of Low\<rparr> \<and>
   mockProbability_plain emptyParameters =
     \<lparr>probability = Fin 5, riskLevel = Low, message = message_of Low\<rparr> \<and>
   mockPrediction lone_number =
     \<lparr>binary_prediction = Major_Flare, final_class = Some ''M'',
      confidence = Fin (5854679515581645 / 2 ^ 53)\<rparr> \<and>
   mockProbability lone_number =
     \<lparr>probability = Fin 50, riskLevel = Medium, message = message_of Medium\<rparr> \<and>
   mockProbability_plain lone_number_words =
     \<lparr>probability = Fin 50, riskLevel = Medium, message = message_of Medium\<rparr>"
proof -
  have e: "parseFloat [] = NaN"
    by (simp add: parseFloat_def)
  have z0: "or_zero (parseFloat (js ''0'')) = Fin 0"
    by (simp add: or_zero_def eval_defs)
  have z: "or_zero (parseFloat v) = Fin 0" if "v = [] \<or> parseFloat v = NaN"
    using that e by (auto simp: or_zero_def)
  have pz: "parsed_values (p(key := v)) = parsed_values (p(key := js ''0''))"
    if "v = [] \<or> parseFloat v = NaN"
    unfolding parsed_values_def by (rule map_cong) (simp_all add: z [OF that] z0)
  have az: "average (p(key := v)) = average (p(key := js ''0''))"
    if "v = [] \<or> parseFloat v = NaN"
    by (simp only: average_def sum_values_def pz [OF that])
  have m1: "mockPrediction (p(key := v)) = mockPrediction (p(key := js ''0''))"
    and m2: "mockProbability (p(key := v)) = mockProbability (p(key := js ''0''))"
    and m3: "mockProbability_plain (p(key := v)) = mockProbability_plain (p(key := js ''0''))"
    if "v = [] \<or> parseFloat v = NaN"
    by (simp_all only: mockPrediction_average mockProbability_average
        mockProbability_plain_average classIndex_def az [OF that])
  have v: "validateParameter k [] = None" for k
    by (simp add: validateParameter_def trim_def)
  have pv: "passes_validation emptyParameters"
    by (simp add: passes_validation_iff emptyParameters_def v)
  have vals: "parsed_values emptyParameters = replicate 13 (Fin 0)"
    by (simp add: parsed_values_def emptyParameters_def e or_zero_def Object_keys_def
        eval_nat_numeral)
  have sm: "sum_values emptyParameters = Fin 0"
    by (simp add: sum_values_def vals js_add_def fl_zero eval_nat_numeral)
  have av: "average emptyParameters = Fin 0"
    by (simp add: average_def sm js_div_def fl_zero)
  have h1: "result (handleSubmit initial_state) = Some (mockPrediction emptyParameters)"
    and h2: "result (handleSubmit_prob initial_state) = Some (mockProbability emptyParameters)"
    and h3: "plain_result (handleSubmit_plain initial_plain_state)
       = Some (mockProbability_plain emptyParameters)"
    using pv
    by (simp_all add: handleSubmit_eq handleSubmit_prob_eq handleSubmit_plain_def
        initial_state_def initial_plain_state_def)
  have e1: "mockPrediction emptyParameters =
     \<lparr>binary_prediction = No_Major_Flare, final_class = Some ''B'',
      confidence = Fin (3602879701896397 / 2 ^ 53)\<rparr>"
    by (simp only: mockPrediction_average classIndex_def av literal_04 literal_098)
      (simp add: number_defs mockClasses_def fl_def rd_eval)
  have e2: "mockProbability emptyParameters =
     \<lparr>probability = Fin 5, riskLevel = Low, message = message_of Low\<rparr>"
    and e3: "mockProbability_plain emptyParameters =
     \<lparr>probability = Fin 5, riskLevel = Low, message = message_of Low\<rparr>"
    by (simp_all add: mockProbability_average mockProbability_plain_average av number_defs
        risk_of_def fl_def rd_eval js_lt_def)
  have l1: "mockPrediction lone_number =
     \<lparr>binary_prediction = Major_Flare, final_class = Some ''M'',
      confidence = Fin (5854679515581645 / 2 ^ 53)\<rparr>"
    by (simp only: mockPrediction_average classIndex_def lone_average literal_04 literal_098)
      (simp add: number_defs mockClasses_def fl_def rd_eval)
  have l2: "mockProbability lone_number =
     \<lparr>probability = Fin 50, riskLevel = Medium, message = message_of Medium\<rparr>"
    and l3: "mockProbability_plain lone_number_words =
     \<lparr>probability = Fin 50, riskLevel = Medium, message = message_of Medium\<rparr>"
    by (simp_all add: mockProbability_average mockProbability_plain_average lone_average
        number_defs risk_of_def fl_def rd_eval js_lt_def)
  show ?thesis
    using z pz m1 m2 m3
    by (intro conjI impI v pv vals sm av h1 h2 h3 e1 e2 e3 l1 l2 l3) blast+
qed

theorem empty_contributes_zero_witness:
  "parseFloat (js ''abc'') = NaN \<and> or_zero (parseFloat (js ''abc'')) = Fin 0 \<and>
   or_zero (parseFloat []) = Fin 0 \<and>
   parsed_values (lone_number(TOTUSJH := js ''abc'')) =
     [Fin 0, Fin 0, Fin 65000, Fin 0, Fin 0, Fin 0, Fin 0, Fin 0, Fin 0, Fin 0, Fin 0, Fin 0,
      Fin 0] \<and>
   mockProbability_plain (lone_number(TOTUSJH := js ''abc'')) =
     \<lparr>probability = Fin 50, riskLevel = Medium, message = message_of Medium\<rparr> \<and>
   mockPrediction (lone_number(TOTUSJH := js ''abc'')) =
     \<lparr>binary_prediction = Major_Flare, final_class = Some ''M'',
      confidence = Fin (5854679515581645 / 2 ^ 53)\<rparr>"
proof -
  let ?p = "lone_number(TOTUSJH := js ''0'')"
  have n: "parseFloat (js ''abc'') = NaN"
    by (simp add: eval_defs)
  note t = empty_contributes_zero [of "js ''abc''" lone_number TOTUSJH]
  note u = empty_contributes_zero [of "[]" lone_number TOTUSJH]
  have o: "or_zero (parseFloat (js ''abc'')) = Fin 0"
    using t n by blast
  have o': "or_zero (parseFloat []) = Fin 0"
    using u by blast
  have p0: "parsed_values ?p =
     [Fin 0, Fin 0, Fin 65000, Fin 0, Fin 0, Fin 0, Fin 0, Fin 0, Fin 0, Fin 0, Fin 0, Fin 0,
      Fin 0]"
    by (simp only: parsed_values_def Object_keys_def list.map)
      (simp add: lone_number_def emptyParameters_def or_zero_def eval_defs)
  have a0: "average ?p = Fin 5000"
    by (simp add: average_def sum_values_def p0 js_add_def js_div_def fl_def rd_eval)
  have q0: "mockProbability_plain ?p =
     \<lparr>probability = Fin 50, riskLevel = Medium, message = message_of Medium\<rparr>"
    by (simp add: mockProbability_plain_average a0 number_defs risk_of_def fl_def rd_eval
        js_lt_def)
  have r0: "mockPrediction ?p =
     \<lparr>binary_prediction = Major_Flare, final_class = Some ''M'',
      confidence = Fin (5854679515581645 / 2 ^ 53)\<rparr>"
    by (simp only: mockPrediction_average classIndex_def a0 literal_04 literal_098)
      (simp add: number_defs mockClasses_def fl_def rd_eval)
  have p1: "parsed_values (lone_number(TOTUSJH := js ''abc'')) = parsed_values ?p"
    and q1: "mockProbability_plain (lone_number(TOTUSJH := js ''abc'')) = mockProbability_plain ?p"
    and r1: "mockPrediction (lone_number(TOTUSJH := js ''abc'')) = mockPrediction ?p"
    using t n by blast+
  show ?thesis
    by (intro conjI n o o' p1 [unfolded p0] q1 [unfolded q0] r1 [unfolded r0])
qed

end
